theory Spec2Isabelle
  imports Main
begin

section \<open>Data model of the chat client\<close>

text \<open>
  The embedding follows \<^verbatim>\<open>contexts/ChatContext.jsx\<close> (the reducer, the event
  handlers registered by \<^verbatim>\<open>ChatProvider\<close> and the intent callbacks) and the
  \<^verbatim>\<open>WebSocketService\<close> class. JavaScript strings are byte lists here; an optional
  property (\<^verbatim>\<open>undefined\<close> or \<^verbatim>\<open>null\<close>) is an \<open>option\<close>.
\<close>

text \<open>A message of the transcript. \<^verbatim>\<open>isStreaming\<close> and \<^verbatim>\<open>emotion\<close> are absent on
  the objects built by \<^verbatim>\<open>ADD_USER_MESSAGE\<close>, hence optional.\<close>

record message =
  msg_id :: string
  role :: string
  content :: string
  created_at :: string
  isStreaming :: "bool option"
  emotion :: "string option"

record session =
  session_id :: string
  title :: string
  s_created_at :: string
  updated_at :: string
  message_count :: "nat option"

text \<open>The reducer's state (\<^verbatim>\<open>initialState\<close>, lines 10-29).\<close>

record chat_state =
  isConnected :: bool
  isConnecting :: bool
  userId :: string
  sessions :: "session list"
  activeSessionId :: "string option"
  messages :: "message list"
  isLoading :: bool
  currentEmotion :: "string option"
  error :: "string option"

text \<open>The two readings of the clock a reducer step makes: \<^verbatim>\<open>Date.now()\<close> and
  \<^verbatim>\<open>new Date().toISOString()\<close>.\<close>

record clock =
  date_now :: nat
  iso_now :: string

text \<open>\<^verbatim>\<open>initialState\<close>; the stored user identifier is a parameter
  (\<^verbatim>\<open>localStorage.getItem('ai_companion_user_id') || 'guest'\<close>).\<close>

definition truthy :: "string option \<Rightarrow> bool" where
  "truthy v = (case v of None \<Rightarrow> False | Some s \<Rightarrow> s \<noteq> [])"

definition initialState :: "string option \<Rightarrow> chat_state" where
  "initialState stored =
     \<lparr>isConnected = False, isConnecting = False,
      userId = (if truthy stored then the stored else ''guest''),
      sessions = [], activeSessionId = None, messages = [],
      isLoading = False, currentEmotion = None, error = None\<rparr>"

text \<open>Decimal rendering of a number inside a template literal.\<close>

fun dec :: "nat \<Rightarrow> string" where
  "dec n = (if n < 10 then [char_of (48 + n)] else dec (n div 10) @ [char_of (48 + n mod 10)])"

declare dec.simps [simp del]

text \<open>The actions (\<^verbatim>\<open>ActionTypes\<close>, lines 34-61) with their payloads.\<close>

datatype action =
    SET_CONNECTING
  | SET_CONNECTED
  | SET_DISCONNECTED
  | SET_USER_ID string
  | SET_SESSIONS "session list"
  | SET_ACTIVE_SESSION "string option"
  | ADD_SESSION session
  | REMOVE_SESSION string
  | LOAD_SESSION_MESSAGES "message list"
  | ADD_USER_MESSAGE "string option" string
  | START_ASSISTANT_MESSAGE "string option"
  | APPEND_STREAM_DELTA string
  | FINISH_ASSISTANT_MESSAGE "string option" "string option"
  | CLEAR_MESSAGES
  | SET_LOADING bool
  | SET_EMOTION "string option"
  | SET_ERROR string

text \<open>The test \<^verbatim>\<open>lastMsg && lastMsg.role === 'assistant' && lastMsg.isStreaming\<close> on a
  message.\<close>

definition streaming_assistant :: "message \<Rightarrow> bool" where
  "streaming_assistant m = (role m = ''assistant'' \<and> isStreaming m = Some True)"

text \<open>\<^verbatim>\<open>chatReducer\<close> (lines 66-188). \<^verbatim>\<open>FINISH_ASSISTANT_MESSAGE emo content\<close> carries
  \<^verbatim>\<open>payload.emo\<close> and \<^verbatim>\<open>payload.content\<close>; \<^verbatim>\<open>ADD_USER_MESSAGE i c\<close> carries
  \<^verbatim>\<open>payload.id\<close> and \<^verbatim>\<open>payload.content\<close>. The write to local storage of
  \<^verbatim>\<open>SET_USER_ID\<close> is outside the state.\<close>

fun chatReducer :: "clock \<Rightarrow> chat_state \<Rightarrow> action \<Rightarrow> chat_state" where
  "chatReducer clk st SET_CONNECTING = st\<lparr>isConnecting := True, error := None\<rparr>"
| "chatReducer clk st SET_CONNECTED = st\<lparr>isConnected := True, isConnecting := False\<rparr>"
| "chatReducer clk st SET_DISCONNECTED = st\<lparr>isConnected := False, isConnecting := False\<rparr>"
| "chatReducer clk st (SET_USER_ID u) = st\<lparr>userId := u\<rparr>"
| "chatReducer clk st (SET_SESSIONS ss) = st\<lparr>sessions := ss\<rparr>"
| "chatReducer clk st (SET_ACTIVE_SESSION a) = st\<lparr>activeSessionId := a\<rparr>"
| "chatReducer clk st (ADD_SESSION s) =
     st\<lparr>sessions := s # sessions st, activeSessionId := Some (session_id s)\<rparr>"
| "chatReducer clk st (REMOVE_SESSION sid) =
     st\<lparr>sessions := filter (\<lambda>s. session_id s \<noteq> sid) (sessions st),
        activeSessionId := (if activeSessionId st = Some sid then None else activeSessionId st),
        messages := (if activeSessionId st = Some sid then [] else messages st)\<rparr>"
| "chatReducer clk st (LOAD_SESSION_MESSAGES ms) = st\<lparr>messages := ms, isLoading := False\<rparr>"
| "chatReducer clk st (ADD_USER_MESSAGE i c) =
     st\<lparr>messages := messages st @
        [\<lparr>msg_id = (if truthy i then the i else ''user-'' @ dec (date_now clk)),
          role = ''user'', content = c, created_at = iso_now clk,
          isStreaming = None, emotion = None\<rparr>]\<rparr>"
| "chatReducer clk st (START_ASSISTANT_MESSAGE i) =
     st\<lparr>messages := messages st @
        [\<lparr>msg_id = (if truthy i then the i else ''assistant-'' @ dec (date_now clk)),
          role = ''assistant'', content = [], created_at = iso_now clk,
          isStreaming = Some True, emotion = None\<rparr>]\<rparr>"
| "chatReducer clk st (APPEND_STREAM_DELTA delta) =
     (let msgs = messages st in
      if msgs \<noteq> [] \<and> streaming_assistant (msgs ! (length msgs - 1))
      then let lastMsg = msgs ! (length msgs - 1) in
           st\<lparr>messages := msgs[length msgs - 1 := lastMsg\<lparr>content := content lastMsg @ delta\<rparr>]\<rparr>
      else st\<lparr>messages := msgs @
             [\<lparr>msg_id = ''assistant-'' @ dec (date_now clk),
               role = ''assistant'', content = delta, created_at = iso_now clk,
               isStreaming = Some True, emotion = None\<rparr>]\<rparr>)"
| "chatReducer clk st (FINISH_ASSISTANT_MESSAGE emo c) =
     (let msgs = messages st;
          msgs' = (if msgs \<noteq> [] \<and> streaming_assistant (msgs ! (length msgs - 1))
                   then let lastMsg = msgs ! (length msgs - 1) in
                        msgs[length msgs - 1 :=
                          lastMsg\<lparr>isStreaming := Some False, emotion := emo,
                                  content := (if truthy c then the c else content lastMsg)\<rparr>]
                   else msgs)
      in st\<lparr>messages := msgs',
            currentEmotion := (if truthy emo then emo else currentEmotion st)\<rparr>)"
| "chatReducer clk st CLEAR_MESSAGES = st\<lparr>messages := []\<rparr>"
| "chatReducer clk st (SET_LOADING b) = st\<lparr>isLoading := b\<rparr>"
| "chatReducer clk st (SET_EMOTION e) = st\<lparr>currentEmotion := e\<rparr>"
| "chatReducer clk st (SET_ERROR e) = st\<lparr>error := Some e, isLoading := False\<rparr>"


section \<open>Inbound events and the handlers of the provider\<close>

text \<open>The data of an event on the bus: the two transport pseudo-events and the inbound
  frames. An optional field of a frame is an \<open>option\<close>. \<^verbatim>\<open>ErrorEv\<close> is both the server's
  \<^verbatim>\<open>error {message}\<close> frame and the transport's error event (which has no message).\<close>

datatype event =
    Connected
  | Disconnected
  | SessionCreated string "string option"
  | SessionLoaded string "message list option"
  | SessionList "session list option"
  | SessionDeleted string
  | Stream string
  | StreamEnd "string option" "string option"
  | Audio string "string option"
  | UserMessageEcho string
  | ErrorEv "string option"

fun event_type :: "event \<Rightarrow> string" where
  "event_type Connected = ''connected''"
| "event_type Disconnected = ''disconnected''"
| "event_type (SessionCreated sid t) = ''session_created''"
| "event_type (SessionLoaded sid ms) = ''session_loaded''"
| "event_type (SessionList ss) = ''session_list''"
| "event_type (SessionDeleted sid) = ''session_deleted''"
| "event_type (Stream d) = ''stream''"
| "event_type (StreamEnd emo c) = ''stream_end''"
| "event_type (Audio d f) = ''audio''"
| "event_type (UserMessageEcho c) = ''user_message_echo''"
| "event_type (ErrorEv m) = ''error''"

text \<open>The three literal texts of the source that are not ASCII, as their UTF-8 bytes: the
  default session title (line 218), the default error text (line 281) and the text shown
  when connecting fails (line 317).\<close>

definition default_title :: string where
  "default_title = map char_of [230, 150, 176, 229, 175, 185, 232, 175, 157 :: nat]"

definition default_error :: string where
  "default_error = map char_of [229, 143, 145, 231, 148, 159, 233, 148, 153, 232, 175, 175 :: nat]"

definition connect_failed :: string where
  "connect_failed = map char_of [232, 191, 158, 230, 142, 165, 229, 164, 177, 232, 180, 165 :: nat]"

text \<open>The actions each handler registered in the \<^verbatim>\<open>useEffect\<close> of the provider
  dispatches for its event (lines 204-282), in order. The audio handler dispatches
  nothing.\<close>

fun provider_actions :: "clock \<Rightarrow> event \<Rightarrow> action list" where
  "provider_actions clk Connected = [SET_CONNECTED]"
| "provider_actions clk Disconnected = [SET_DISCONNECTED]"
| "provider_actions clk (SessionCreated sid t) =
     [ADD_SESSION \<lparr>session_id = sid,
                   title = (if truthy t then the t else default_title),
                   s_created_at = iso_now clk, updated_at = iso_now clk,
                   message_count = None\<rparr>]"
| "provider_actions clk (SessionLoaded sid ms) =
     [SET_ACTIVE_SESSION (Some sid),
      LOAD_SESSION_MESSAGES (case ms of None \<Rightarrow> [] | Some l \<Rightarrow> l)]"
| "provider_actions clk (SessionList ss) =
     [SET_SESSIONS (case ss of None \<Rightarrow> [] | Some l \<Rightarrow> l)]"
| "provider_actions clk (SessionDeleted sid) = [REMOVE_SESSION sid]"
| "provider_actions clk (Stream d) = [APPEND_STREAM_DELTA d]"
| "provider_actions clk (StreamEnd emo c) = [FINISH_ASSISTANT_MESSAGE emo c]"
| "provider_actions clk (Audio d f) = []"
| "provider_actions clk (UserMessageEcho c) = [ADD_USER_MESSAGE None c]"
| "provider_actions clk (ErrorEv m) = [SET_ERROR (if truthy m then the m else default_error)]"

text \<open>The state after an event: the reducer folded over the dispatched actions.\<close>

definition on_event :: "clock \<Rightarrow> event \<Rightarrow> chat_state \<Rightarrow> chat_state" where
  "on_event clk ev st = foldl (chatReducer clk) st (provider_actions clk ev)"

text \<open>Events in arrival order, each with the clock readings of its reducer steps.\<close>

fun run_events :: "(clock \<times> event) list \<Rightarrow> chat_state \<Rightarrow> chat_state" where
  "run_events [] st = st"
| "run_events ((clk, ev) # es) st = run_events es (on_event clk ev st)"

text \<open>The invariant of the transcript: no message before the last one is streaming, and
  a streaming last message is an assistant message.\<close>

definition transcript_inv :: "message list \<Rightarrow> bool" where
  "transcript_inv ms =
     (list_all (\<lambda>m. isStreaming m \<noteq> Some True) (butlast ms) \<and>
      (ms = [] \<or> isStreaming (last ms) \<noteq> Some True \<or> role (last ms) = ''assistant''))"

text \<open>The last entry of the transcript is a streaming assistant message.\<close>

definition last_streaming :: "message list \<Rightarrow> bool" where
  "last_streaming ms = (ms \<noteq> [] \<and> streaming_assistant (ms ! (length ms - 1)))"


section \<open>The WebSocket service and the provider around the reducer\<close>

text \<open>\<^verbatim>\<open>WebSocket.readyState\<close>.\<close>

datatype readyState = CONNECTING | OPEN | CLOSING | CLOSED

text \<open>Outbound frames, as built by the verbs of the service (lines 226-263 of the
  service).\<close>

datatype frame_out =
    InitSession "string option"
  | NewSession
  | ListSessions
  | DeleteSession string
  | Chat string
  | ChatAudio string

text \<open>Who consumes the promise that \<^verbatim>\<open>wsService.connect\<close> returns: the \<^verbatim>\<open>connect\<close>
  callback of the provider awaits it (lines 312-318); the reconnect timer drops it.\<close>

datatype waiter = Awaited | Dropped

text \<open>One \<^verbatim>\<open>WebSocket\<close> object with the promise of the \<^verbatim>\<open>connect\<close> call that made it:
  \<open>target\<close> is the identifier in its URL, \<open>settled\<close> whether the promise has been
  resolved or rejected.\<close>

record socket =
  target :: "string option"
  readyState :: readyState
  waiter :: waiter
  settled :: bool

text \<open>A subscriber of the bus. The provider registers one closure per event type
  (lines 204-282), each only in the list of its own type, so one constructor stands for
  them; a deferred send (lines 367-371) is a fresh closure per call, told apart by a
  number, and keeps the content of its call.\<close>

datatype handler = ProviderHandler | DeferredSend nat string

text \<open>What the system does that can be seen from outside, in order.\<close>

datatype effect =
    Dispatched action
  | Wire frame_out
  | Emitted string
  | Resolved
  | Rejected

text \<open>The whole client: the reducer's state, the audio handle of the provider, and the
  fields of the service. \<open>sockets\<close> holds every transport created so far (a closed one
  keeps its handlers), \<open>ws\<close> is the index of \<^verbatim>\<open>this.ws\<close>, \<open>timers\<close> the delays of the
  pending \<^verbatim>\<open>setTimeout\<close> callbacks, each of which is
  \<^verbatim>\<open>() => this.connect(this.userId)\<close>.\<close>

record world =
  chat :: chat_state
  audioRef :: "string option"
  sockets :: "socket list"
  ws :: "nat option"
  svc_userId :: "string option"
  listeners :: "string \<rightharpoonup> handler list"
  reconnectAttempts :: nat
  timers :: "nat list"
  trace :: "effect list"
  next_closure :: nat

definition maxReconnectAttempts :: nat where
  "maxReconnectAttempts = 5"

definition reconnectDelay :: nat where
  "reconnectDelay = 3000"

definition dispatch :: "clock \<Rightarrow> action \<Rightarrow> world \<Rightarrow> world" where
  "dispatch clk a w = w\<lparr>chat := chatReducer clk (chat w) a, trace := trace w @ [Dispatched a]\<rparr>"

text \<open>\<^verbatim>\<open>this.ws && this.ws.readyState === WebSocket.OPEN\<close>.\<close>

definition is_open :: "world \<Rightarrow> bool" where
  "is_open w =
     (case ws w of None \<Rightarrow> False
      | Some i \<Rightarrow> i < length (sockets w) \<and> readyState (sockets w ! i) = OPEN)"

text \<open>\<^verbatim>\<open>send\<close> (lines 211-221 of the service) and its verbs; the boolean is the returned
  success indicator.\<close>

definition ws_send :: "frame_out \<Rightarrow> world \<Rightarrow> bool \<times> world" where
  "ws_send f w = (if \<not> is_open w then (False, w) else (True, w\<lparr>trace := trace w @ [Wire f]\<rparr>))"

definition ws_initSession :: "string option \<Rightarrow> world \<Rightarrow> bool \<times> world" where
  "ws_initSession sid w = ws_send (InitSession (if truthy sid then sid else None)) w"

definition ws_newSession :: "world \<Rightarrow> bool \<times> world" where
  "ws_newSession w = ws_send NewSession w"

definition ws_listSessions :: "world \<Rightarrow> bool \<times> world" where
  "ws_listSessions w = ws_send ListSessions w"

definition ws_deleteSession :: "string \<Rightarrow> world \<Rightarrow> bool \<times> world" where
  "ws_deleteSession sid w = ws_send (DeleteSession sid) w"

definition ws_chat :: "string \<Rightarrow> world \<Rightarrow> bool \<times> world" where
  "ws_chat c w = ws_send (Chat c) w"

definition ws_chatAudio :: "string \<Rightarrow> world \<Rightarrow> bool \<times> world" where
  "ws_chatAudio a w = ws_send (ChatAudio a) w"

text \<open>\<^verbatim>\<open>on\<close> and \<^verbatim>\<open>off\<close> (lines 268-288 of the service). \<^verbatim>\<open>off\<close> finds the first index of
  the callback and splices it out; the closure \<^verbatim>\<open>on\<close> returns is \<^verbatim>\<open>off\<close> with the same
  arguments.\<close>

definition ws_on :: "string \<Rightarrow> handler \<Rightarrow> world \<Rightarrow> world" where
  "ws_on name h w =
     w\<lparr>listeners := (listeners w)
        (name \<mapsto> (case listeners w name of None \<Rightarrow> [] | Some cs \<Rightarrow> cs) @ [h])\<rparr>"

definition ws_off :: "string \<Rightarrow> handler \<Rightarrow> world \<Rightarrow> world" where
  "ws_off name h w =
     (case listeners w name of None \<Rightarrow> w
      | Some cs \<Rightarrow> w\<lparr>listeners := (listeners w)(name \<mapsto> remove1 h cs)\<rparr>)"

text \<open>\<^verbatim>\<open>Array.prototype.forEach\<close> over an array that the callbacks may change: the
  length is read once, and index \<open>k\<close> is visited only if the array still has it. \<open>r\<close>
  counts the indices left, \<open>arr\<close> reads the array in the current state.\<close>

fun forEach :: "('h \<Rightarrow> 'w \<Rightarrow> 'w) \<Rightarrow> ('w \<Rightarrow> 'h list) \<Rightarrow> nat \<Rightarrow> nat \<Rightarrow> 'w \<Rightarrow> 'w" where
  "forEach call arr 0 k w = w"
| "forEach call arr (Suc r) k w =
     forEach call arr r (Suc k) (if k < length (arr w) then call (arr w ! k) w else w)"

text \<open>The body of a subscriber. The provider's closure dispatches the actions of its event;
  for \<^verbatim>\<open>audio\<close> it replaces the playing audio (lines 255-271). A deferred send appends
  the user message, sends the chat frame and unsubscribes itself (lines 367-371).\<close>

definition provider_handler :: "clock \<Rightarrow> event \<Rightarrow> world \<Rightarrow> world" where
  "provider_handler clk ev w =
     (let w' = foldl (\<lambda>v a. dispatch clk a v) w (provider_actions clk ev) in
      case ev of
        Audio d f \<Rightarrow>
          w'\<lparr>audioRef := Some (''data:audio/'' @ (if truthy f then the f else ''wav'') @
                              '';base64,'' @ d)\<rparr>
      | _ \<Rightarrow> w')"

fun run_handler :: "clock \<Rightarrow> event \<Rightarrow> handler \<Rightarrow> world \<Rightarrow> world" where
  "run_handler clk ev ProviderHandler w = provider_handler clk ev w"
| "run_handler clk ev (DeferredSend n c) w =
     ws_off ''session_created'' (DeferredSend n c)
       (snd (ws_chat c (dispatch clk (ADD_USER_MESSAGE None c) w)))"

text \<open>\<^verbatim>\<open>emit\<close> (lines 293-302 of the service): nothing without a list for the event,
  else \<^verbatim>\<open>forEach\<close> over the live list.\<close>

definition subscribers :: "string \<Rightarrow> world \<Rightarrow> handler list" where
  "subscribers name w = (case listeners w name of None \<Rightarrow> [] | Some cs \<Rightarrow> cs)"

definition ws_emit :: "clock \<Rightarrow> string \<Rightarrow> event \<Rightarrow> world \<Rightarrow> world" where
  "ws_emit clk name ev w =
     (let w' = w\<lparr>trace := trace w @ [Emitted name]\<rparr> in
      case listeners w name of None \<Rightarrow> w'
      | Some cs \<Rightarrow> forEach (run_handler clk ev) (subscribers name) (length cs) 0 w')"

definition ws_handleMessage :: "clock \<Rightarrow> event \<Rightarrow> world \<Rightarrow> world" where
  "ws_handleMessage clk ev w = ws_emit clk ''message'' ev (ws_emit clk (event_type ev) ev w)"

text \<open>What runs when the promise of a \<^verbatim>\<open>connect\<close> call settles: after the \<^verbatim>\<open>await\<close> of
  the provider (lines 312-318) the session list is requested, or the failure text is
  set.\<close>

definition settle :: "clock \<Rightarrow> waiter \<Rightarrow> bool \<Rightarrow> world \<Rightarrow> world" where
  "settle clk p ok w =
     (let w' = w\<lparr>trace := trace w @ [if ok then Resolved else Rejected]\<rparr> in
      case p of Dropped \<Rightarrow> w'
      | Awaited \<Rightarrow> if ok then snd (ws_listSessions w')
                   else dispatch clk (SET_ERROR connect_failed) w')"

text \<open>\<^verbatim>\<open>resolve()\<close> or \<^verbatim>\<open>reject(error)\<close> from a handler of socket \<open>i\<close>: only the first of
  them settles the promise.\<close>

definition settle_socket :: "clock \<Rightarrow> nat \<Rightarrow> bool \<Rightarrow> world \<Rightarrow> world" where
  "settle_socket clk i ok w =
     (if settled (sockets w ! i) then w
      else settle clk (waiter (sockets w ! i)) ok
             (w\<lparr>sockets := (sockets w)[i := (sockets w ! i)\<lparr>settled := True\<rparr>]\<rparr>))"

text \<open>\<^verbatim>\<open>WebSocket.close()\<close>: a transport that is not closed yet starts closing; its close
  event comes later.\<close>

definition close_socket :: "nat \<Rightarrow> world \<Rightarrow> world" where
  "close_socket i w =
     (if readyState (sockets w ! i) = CLOSED then w
      else w\<lparr>sockets := (sockets w)[i := (sockets w ! i)\<lparr>readyState := CLOSING\<rparr>]\<rparr>)"

text \<open>\<^verbatim>\<open>connect\<close> of the service (lines 143-195), the part that runs at the call.\<close>

definition ws_connect :: "clock \<Rightarrow> waiter \<Rightarrow> string option \<Rightarrow> world \<Rightarrow> world" where
  "ws_connect clk p uid w =
     (if is_open w \<and> svc_userId w = uid then settle clk p True w
      else
        let w1 = (if is_open w then close_socket (the (ws w)) w else w) in
        w1\<lparr>svc_userId := uid,
           sockets := sockets w1 @
             [\<lparr>target = uid, readyState = CONNECTING, waiter = p, settled = False\<rparr>],
           ws := Some (length (sockets w1))\<rparr>)"

text \<open>The handlers that \<^verbatim>\<open>connect\<close> puts on the socket it creates, run by the browser
  for socket \<open>i\<close>. The browser opens a connecting socket only, closes a socket once, and
  delivers frames on an open socket; it sets \<^verbatim>\<open>readyState\<close> before the handler runs.
  An undecodable frame is \<open>None\<close>.\<close>

definition ws_onopen :: "clock \<Rightarrow> nat \<Rightarrow> world \<Rightarrow> world" where
  "ws_onopen clk i w =
     (if i < length (sockets w) \<and> readyState (sockets w ! i) = CONNECTING
      then
        let w1 = w\<lparr>sockets := (sockets w)[i := (sockets w ! i)\<lparr>readyState := OPEN\<rparr>]\<rparr>;
            w2 = w1\<lparr>reconnectAttempts := 0\<rparr>;
            w3 = ws_emit clk ''connected'' Connected w2
        in settle_socket clk i True w3
      else w)"

definition ws_onclose :: "clock \<Rightarrow> nat \<Rightarrow> world \<Rightarrow> world" where
  "ws_onclose clk i w =
     (if i < length (sockets w) \<and> readyState (sockets w ! i) \<noteq> CLOSED
      then
        let w1 = w\<lparr>sockets := (sockets w)[i := (sockets w ! i)\<lparr>readyState := CLOSED\<rparr>]\<rparr>;
            w2 = ws_emit clk ''disconnected'' Disconnected w1
        in if reconnectAttempts w2 < maxReconnectAttempts
           then w2\<lparr>reconnectAttempts := reconnectAttempts w2 + 1,
                   timers := timers w2 @ [reconnectDelay]\<rparr>
           else w2
      else w)"

definition ws_onerror :: "clock \<Rightarrow> nat \<Rightarrow> world \<Rightarrow> world" where
  "ws_onerror clk i w =
     (if i < length (sockets w)
      then settle_socket clk i False (ws_emit clk ''error'' (ErrorEv None) w)
      else w)"

definition ws_onmessage :: "clock \<Rightarrow> nat \<Rightarrow> event option \<Rightarrow> world \<Rightarrow> world" where
  "ws_onmessage clk i data w =
     (if i < length (sockets w) \<and> readyState (sockets w ! i) = OPEN
      then (case data of None \<Rightarrow> w | Some ev \<Rightarrow> ws_handleMessage clk ev w)
      else w)"

text \<open>The oldest pending reconnect timer fires (all have the same delay).\<close>

definition timer_fire :: "clock \<Rightarrow> world \<Rightarrow> world" where
  "timer_fire clk w =
     (case timers w of [] \<Rightarrow> w
      | t # ts \<Rightarrow> ws_connect clk Dropped (svc_userId w) (w\<lparr>timers := ts\<rparr>))"

definition ws_disconnect :: "world \<Rightarrow> world" where
  "ws_disconnect w =
     (case ws w of None \<Rightarrow> w | Some i \<Rightarrow> (close_socket i w)\<lparr>ws := None\<rparr>)"


section \<open>The provider: subscriptions and intents\<close>

text \<open>The subscriptions made by the \<^verbatim>\<open>useEffect\<close> of the provider, in source order.\<close>

definition provider_events :: "string list" where
  "provider_events =
     [''connected'', ''disconnected'', ''session_created'', ''session_loaded'',
      ''session_list'', ''session_deleted'', ''stream'', ''stream_end'', ''audio'',
      ''user_message_echo'', ''error'']"

definition mount :: "world \<Rightarrow> world" where
  "mount w = foldl (\<lambda>v name. ws_on name ProviderHandler v) w provider_events"

definition initial_world :: "string option \<Rightarrow> world" where
  "initial_world stored =
     \<lparr>chat = initialState stored, audioRef = None, sockets = [], ws = None,
      svc_userId = None, listeners = Map.empty, reconnectAttempts = 0, timers = [],
      trace = [], next_closure = 0\<rparr>"

text \<open>\<^verbatim>\<open>String.prototype.trim\<close> removes white space and line terminators. \<open>ws_len\<close> is
  the number of bytes of the white-space code point at the head of a UTF-8 string (0 when
  there is none): the ASCII ones, U+00A0, U+1680, U+2000 to U+200A, U+2028, U+2029, U+202F,
  U+205F, U+3000 and U+FEFF. \<open>blank c\<close> is \<^verbatim>\<open>!c.trim()\<close>.\<close>

fun ws_len :: "nat list \<Rightarrow> nat" where
  "ws_len [] = 0"
| "ws_len (a # rest) =
     (if a \<in> {9, 10, 11, 12, 13, 32} then 1
      else if a = 194 \<and> take 1 rest = [160] then 2
      else if a = 225 \<and> take 2 rest = [154, 128] then 3
      else if a = 226 \<and> length rest \<ge> 2 \<and>
              ((rest ! 0 = 128 \<and> (128 \<le> rest ! 1 \<and> rest ! 1 \<le> 138 \<or> rest ! 1 \<in> {168, 169, 175})) \<or>
               (rest ! 0 = 129 \<and> rest ! 1 = 159)) then 3
      else if a = 227 \<and> take 2 rest = [128, 128] then 3
      else if a = 239 \<and> take 2 rest = [187, 191] then 3
      else 0)"

function blank :: "string \<Rightarrow> bool" where
  "blank c =
     (if c = [] then True
      else let n = ws_len (map of_char c) in
           if n = 0 then False else blank (drop n c))"
  by pat_completeness auto
termination
  by (relation "measure length") auto

declare blank.simps [simp del]

text \<open>The intents of the provider (lines 305-407). The state a callback reads is the
  one of the last render, taken here to be the current one.\<close>

definition connect :: "clock \<Rightarrow> string \<Rightarrow> world \<Rightarrow> world" where
  "connect clk uid w =
     (let w1 = dispatch clk SET_CONNECTING w;
          w2 = (if uid \<noteq> [] \<and> uid \<noteq> userId (chat w)
                then dispatch clk (SET_USER_ID uid) w1 else w1)
      in ws_connect clk Awaited (Some (if uid \<noteq> [] then uid else userId (chat w))) w2)"

definition switchUser :: "clock \<Rightarrow> string \<Rightarrow> world \<Rightarrow> world" where
  "switchUser clk newUserId w =
     (let w1 = dispatch clk CLEAR_MESSAGES w;
          w2 = dispatch clk (SET_SESSIONS []) w1;
          w3 = dispatch clk (SET_ACTIVE_SESSION None) w2
      in connect clk newUserId w3)"

definition createSession :: "clock \<Rightarrow> world \<Rightarrow> world" where
  "createSession clk w = snd (ws_newSession (dispatch clk CLEAR_MESSAGES w))"

definition switchSession :: "clock \<Rightarrow> string \<Rightarrow> world \<Rightarrow> world" where
  "switchSession clk sid w =
     (if Some sid = activeSessionId (chat w) then w
      else let w1 = dispatch clk (SET_LOADING True) w;
               w2 = dispatch clk CLEAR_MESSAGES w1
           in snd (ws_initSession (Some sid) w2))"

definition deleteSession :: "string \<Rightarrow> world \<Rightarrow> world" where
  "deleteSession sid w = snd (ws_deleteSession sid w)"

definition sendMessage :: "clock \<Rightarrow> string \<Rightarrow> world \<Rightarrow> world" where
  "sendMessage clk c w =
     (if blank c then w
      else if \<not> truthy (activeSessionId (chat w))
      then let w1 = snd (ws_newSession w);
               h = DeferredSend (next_closure w1) c
           in ws_on ''session_created'' h (w1\<lparr>next_closure := Suc (next_closure w1)\<rparr>)
      else let w1 = w\<lparr>audioRef := None\<rparr>;
               w2 = dispatch clk (ADD_USER_MESSAGE None c) w1
           in snd (ws_chat c w2))"

definition sendAudioMessage :: "string \<Rightarrow> world \<Rightarrow> world" where
  "sendAudioMessage a w = snd (ws_chatAudio a (w\<lparr>audioRef := None\<rparr>))"

definition stopAudio :: "world \<Rightarrow> world" where
  "stopAudio w = w\<lparr>audioRef := None\<rparr>"

text \<open>A dispatch script for tests of the bus alone: the state is the subscriber array
  of one event and the log of the callbacks run; a callback \<open>h\<close> unsubscribes the handlers
  \<open>offs h\<close> (each by \<^verbatim>\<open>off\<close>, that is \<open>remove1\<close>) and does nothing else.\<close>

definition script_call :: "('h \<Rightarrow> 'h list) \<Rightarrow> 'h \<Rightarrow> 'h list \<times> 'h list \<Rightarrow> 'h list \<times> 'h list" where
  "script_call offs h s = (foldl (\<lambda>a x. remove1 x a) (fst s) (offs h), snd s @ [h])"

definition dispatch_log :: "('h \<Rightarrow> 'h list) \<Rightarrow> 'h list \<Rightarrow> 'h list" where
  "dispatch_log offs cs = snd (forEach (script_call offs) fst (length cs) 0 (cs, []))"


section \<open>Predicates on the transports\<close>

text \<open>The fields of the service that only \<^verbatim>\<open>connect\<close>, the socket handlers and the timer
  write.\<close>

definition transport :: "world \<Rightarrow> socket list \<times> nat option \<times> string option \<times> nat \<times> nat list" where
  "transport w = (sockets w, ws w, svc_userId w, reconnectAttempts w, timers w)"





section \<open>Sample inputs\<close>

definition ex_clock :: clock where
  "ex_clock = \<lparr>date_now = 1000, iso_now = ''2025-01-01T00:00:00.000Z''\<rparr>"

definition ex_streaming :: message where
  "ex_streaming =
     \<lparr>msg_id = ''assistant-1000'', role = ''assistant'', content = ''AB'',
      created_at = ''2025-01-01T00:00:00.000Z'', isStreaming = Some True, emotion = None\<rparr>"

text \<open>Session \<^verbatim>\<open>s1\<close> is active and its assistant reply is being streamed.\<close>

definition ex_state_streaming :: chat_state where
  "ex_state_streaming =
     (initialState None)\<lparr>activeSessionId := Some ''s1'', messages := [ex_streaming]\<rparr>"

definition ex_session :: "string \<Rightarrow> session" where
  "ex_session sid =
     \<lparr>session_id = sid, title = ''chat'', s_created_at = ''2025-01-01T00:00:00.000Z'',
      updated_at = ''2025-01-01T00:00:00.000Z'', message_count = Some 1\<rparr>"

text \<open>Two sessions in the roster; \<^verbatim>\<open>s1\<close> is active with one finished message.\<close>

definition ex_state_two_sessions :: chat_state where
  "ex_state_two_sessions =
     (initialState None)\<lparr>sessions := [ex_session ''s1'', ex_session ''s2''],
        activeSessionId := Some ''s1'',
        messages := [ex_streaming\<lparr>isStreaming := Some False\<rparr>]\<rparr>"

text \<open>The provider is mounted and \<^verbatim>\<open>connect('u1')\<close> has been called: one socket, still
  connecting. Then the socket has opened.\<close>

definition ex_world_connecting :: world where
  "ex_world_connecting = connect ex_clock ''u1'' (mount (initial_world None))"

definition ex_world_connected :: world where
  "ex_world_connected = ws_onopen ex_clock 0 ex_world_connecting"

text \<open>Session \<^verbatim>\<open>s1\<close> has been loaded with one finished message, and the user has then
  asked for a new session (\<^verbatim>\<open>createSession\<close>).\<close>

definition ex_world_new_chat :: world where
  "ex_world_new_chat =
     createSession ex_clock
       (ws_handleMessage ex_clock
          (SessionLoaded ''s1'' (Some [ex_streaming\<lparr>isStreaming := Some False\<rparr>]))
          ex_world_connected)"

section \<open>Assembly of streamed replies\<close>

lemma last_streaming_snoc [simp]: "last_streaming (ms @ [m]) = streaming_assistant m"
  by (simp add: last_streaming_def)

lemma last_streaming_Nil [simp]: "\<not> last_streaming []"
  by (simp add: last_streaming_def)

lemma stream_step_new:
  "\<not> last_streaming (messages st) \<Longrightarrow>
   on_event clk (Stream d) st =
     st\<lparr>messages := messages st @
        [\<lparr>msg_id = ''assistant-'' @ dec (date_now clk), role = ''assistant'', content = d,
          created_at = iso_now clk, isStreaming = Some True, emotion = None\<rparr>]\<rparr>"
  by (auto simp add: on_event_def last_streaming_def Let_def)

lemma stream_step_append:
  "last_streaming (messages st) \<Longrightarrow>
   on_event clk (Stream d) st =
     st\<lparr>messages := butlast (messages st) @
        [(last (messages st))\<lparr>content := content (last (messages st)) @ d\<rparr>]\<rparr>"
  apply (cases "messages st" rule: rev_cases)
   apply (simp add: last_streaming_def)
  apply (simp add: on_event_def last_streaming_def Let_def)
  done

lemma stream_run_streaming:
  "streaming_assistant m \<Longrightarrow> messages st = ms @ [m] \<Longrightarrow>
   run_events (map (\<lambda>(clk, d). (clk, Stream d)) ds) st =
     st\<lparr>messages := ms @ [m\<lparr>content := content m @ concat (map snd ds)\<rparr>]\<rparr>"
proof (induction ds arbitrary: st m)
  case Nil
  then show ?case by simp
next
  case (Cons a ds)
  obtain clk d where a: "a = (clk, d)" by (cases a)
  have ls: "last_streaming (messages st)" using Cons.prems by simp
  let ?m' = "m\<lparr>content := content m @ d\<rparr>"
  let ?st' = "on_event clk (Stream d) st"
  have st': "?st' = st\<lparr>messages := ms @ [?m']\<rparr>"
    using stream_step_append[OF ls, of clk d] Cons.prems by simp
  have sa: "streaming_assistant ?m'" using Cons.prems by (simp add: streaming_assistant_def)
  have "run_events (map (\<lambda>(clk, d). (clk, Stream d)) ds) ?st' =
       ?st'\<lparr>messages := ms @ [?m'\<lparr>content := content ?m' @ concat (map snd ds)\<rparr>]\<rparr>"
    by (rule Cons.IH[OF sa]) (simp add: st')
  then show ?case by (simp add: a st')
qed

lemma stream_run_fresh:
  assumes "\<not> last_streaming (messages st)"
  shows "run_events (map (\<lambda>(clk, d). (clk, Stream d)) ((clk0, d0) # ds)) st =
     st\<lparr>messages := messages st @
        [\<lparr>msg_id = ''assistant-'' @ dec (date_now clk0), role = ''assistant'',
          content = concat (d0 # map snd ds), created_at = iso_now clk0,
          isStreaming = Some True, emotion = None\<rparr>]\<rparr>"
proof -
  let ?m = "\<lparr>msg_id = ''assistant-'' @ dec (date_now clk0), role = ''assistant'',
          content = d0, created_at = iso_now clk0,
          isStreaming = Some True, emotion = None\<rparr>"
  let ?st' = "on_event clk0 (Stream d0) st"
  have st': "?st' = st\<lparr>messages := messages st @ [?m]\<rparr>"
    by (rule stream_step_new[OF assms])
  have sa: "streaming_assistant ?m" by (simp add: streaming_assistant_def)
  have "run_events (map (\<lambda>(clk, d). (clk, Stream d)) ds) ?st' =
      ?st'\<lparr>messages := messages st @ [?m\<lparr>content := content ?m @ concat (map snd ds)\<rparr>]\<rparr>"
    by (rule stream_run_streaming[OF sa]) (simp add: st')
  then show ?thesis by (simp add: st')
qed

text \<open>
  Claim C1. Starting from a transcript whose last entry is not a streaming assistant
  message, a non-empty run of \<^verbatim>\<open>stream\<close> events (each with its own clock reading, none
  of them a \<^verbatim>\<open>stream_end\<close>) leaves the old transcript followed by exactly one new
  message: a streaming assistant message, created at the first delta, whose content is
  the concatenation of the deltas in arrival order. A single delta is appended in place
  to a streaming assistant message that is last, and otherwise starts a new streaming
  assistant message whose content is the delta.
\<close>

theorem stream_assembly:
  "(\<not> last_streaming (messages st) \<longrightarrow>
      run_events (map (\<lambda>(clk, d). (clk, Stream d)) ((clk0, d0) # ds)) st =
        st\<lparr>messages := messages st @
          [\<lparr>msg_id = ''assistant-'' @ dec (date_now clk0), role = ''assistant'',
            content = concat (d0 # map snd ds), created_at = iso_now clk0,
            isStreaming = Some True, emotion = None\<rparr>]\<rparr>) \<and>
   (last_streaming (messages st) \<longrightarrow>
      on_event clk (Stream d) st =
        st\<lparr>messages := butlast (messages st) @
          [(last (messages st))\<lparr>content := content (last (messages st)) @ d\<rparr>]\<rparr>) \<and>
   (\<not> last_streaming (messages st) \<longrightarrow>
      on_event clk (Stream d) st =
        st\<lparr>messages := messages st @
          [\<lparr>msg_id = ''assistant-'' @ dec (date_now clk), role = ''assistant'', content = d,
            created_at = iso_now clk, isStreaming = Some True, emotion = None\<rparr>]\<rparr>)"
  using stream_run_fresh stream_step_append stream_step_new by blast

lemma dec_1000: "dec 1000 = ''1000''" by code_simp

theorem stream_assembly_witness:
  "\<not> last_streaming (messages (initialState None)) \<and>
   messages (run_events [(ex_clock, Stream ''A''), (ex_clock, Stream ''B'')] (initialState None)) =
     [\<lparr>msg_id = ''assistant-1000'', role = ''assistant'', content = ''AB'',
       created_at = ''2025-01-01T00:00:00.000Z'', isStreaming = Some True, emotion = None\<rparr>] \<and>
   messages (on_event ex_clock (Stream ''A'') (initialState None)) =
     [\<lparr>msg_id = ''assistant-1000'', role = ''assistant'', content = ''A'',
       created_at = ''2025-01-01T00:00:00.000Z'', isStreaming = Some True, emotion = None\<rparr>] \<and>
   last_streaming (messages ex_state_streaming) \<and>
   messages (on_event ex_clock (Stream ''C'') ex_state_streaming) =
     [ex_streaming\<lparr>content := ''ABC''\<rparr>]"
proof -
  have a: "\<not> last_streaming (messages (initialState None))"
    by (simp add: initialState_def)
  have b: "last_streaming (messages ex_state_streaming)"
    by (simp add: ex_state_streaming_def ex_streaming_def streaming_assistant_def last_streaming_def)
  show ?thesis
    using a b
      stream_assembly[where st = "initialState None" and ?clk0.0 = ex_clock and ?d0.0 = "''A''"
        and ds = "[(ex_clock, ''B'')]" and clk = ex_clock and d = "''A''"]
      stream_assembly[where st = ex_state_streaming and clk = ex_clock and d = "''C''"]
    by (simp add: initialState_def ex_clock_def ex_state_streaming_def ex_streaming_def dec_1000
        on_event_def last_streaming_def streaming_assistant_def truthy_def Let_def)
qed


lemma stream_end_step:
  "last_streaming (messages st) \<Longrightarrow>
   on_event clk (StreamEnd emo c) st =
     st\<lparr>messages := butlast (messages st) @
          [(last (messages st))\<lparr>isStreaming := Some False, emotion := emo,
             content := (if truthy c then the c else content (last (messages st)))\<rparr>],
        currentEmotion := (if truthy emo then emo else currentEmotion st)\<rparr>"
  apply (cases "messages st" rule: rev_cases)
   apply (simp add: last_streaming_def)
  apply (simp add: on_event_def last_streaming_def Let_def)
  done

lemma stream_end_scenario:
  assumes "\<not> last_streaming (messages st)"
  shows "last (messages (run_events
           [(c1, Stream ''A''), (c2, Stream ''B''), (c3, StreamEnd (Some ''happy'') None)] st)) =
         \<lparr>msg_id = ''assistant-'' @ dec (date_now c1), role = ''assistant'', content = ''AB'',
          created_at = iso_now c1, isStreaming = Some False, emotion = Some ''happy''\<rparr>"
proof -
  let ?m = "\<lparr>msg_id = ''assistant-'' @ dec (date_now c1), role = ''assistant'', content = ''AB'',
          created_at = iso_now c1, isStreaming = Some True, emotion = None\<rparr>"
  have st2: "on_event c2 (Stream ''B'') (on_event c1 (Stream ''A'') st) =
             st\<lparr>messages := messages st @ [?m]\<rparr>"
    using stream_run_fresh[OF assms, of c1 "''A''" "[(c2, ''B'')]"] by simp
  have ls: "last_streaming (messages (st\<lparr>messages := messages st @ [?m]\<rparr>))"
    by (simp add: streaming_assistant_def)
  show ?thesis
    using stream_end_step[OF ls, of c3 "Some ''happy''" None]
    by (simp add: st2 truthy_def)
qed

text \<open>
  Claim C8, as amended. When the last entry is a streaming assistant message, \<^verbatim>\<open>stream_end\<close>
  marks it non-streaming, sets its emotion tag from the event, and replaces its content
  with the final content of the event when that is present and not empty; an absent or
  empty final content keeps the accumulated content. The current emotion becomes the
  event's emotion when that is present and not empty, and stays as it was otherwise.
  After \<^verbatim>\<open>stream A\<close>, \<^verbatim>\<open>stream B\<close>, \<^verbatim>\<open>stream_end {emo: happy}\<close> on a transcript whose last entry
  was not streaming, the last message is the assistant message with content \<^verbatim>\<open>AB\<close>, not
  streaming, with emotion \<^verbatim>\<open>happy\<close>.
\<close>

theorem stream_end_finalizes:
  "(last_streaming (messages st) \<longrightarrow>
      on_event clk (StreamEnd emo c) st =
        st\<lparr>messages := butlast (messages st) @
             [(last (messages st))\<lparr>isStreaming := Some False, emotion := emo,
                content := (if truthy c then the c else content (last (messages st)))\<rparr>],
           currentEmotion := (if truthy emo then emo else currentEmotion st)\<rparr>) \<and>
   (\<not> last_streaming (messages st) \<longrightarrow>
      last (messages (run_events
           [(c1, Stream ''A''), (c2, Stream ''B''), (c3, StreamEnd (Some ''happy'') None)] st)) =
         \<lparr>msg_id = ''assistant-'' @ dec (date_now c1), role = ''assistant'', content = ''AB'',
          created_at = iso_now c1, isStreaming = Some False, emotion = Some ''happy''\<rparr>)"
  using stream_end_step stream_end_scenario by blast

theorem stream_end_finalizes_witness:
  "last_streaming (messages ex_state_streaming) \<and>
   on_event ex_clock (StreamEnd (Some ''happy'') (Some ''final'')) ex_state_streaming =
     ex_state_streaming\<lparr>messages :=
        [ex_streaming\<lparr>isStreaming := Some False, emotion := Some ''happy'', content := ''final''\<rparr>],
        currentEmotion := Some ''happy''\<rparr> \<and>
   \<not> last_streaming (messages (initialState None)) \<and>
   last (messages (run_events
      [(ex_clock, Stream ''A''), (ex_clock, Stream ''B''),
       (ex_clock, StreamEnd (Some ''happy'') None)] (initialState None))) =
     \<lparr>msg_id = ''assistant-1000'', role = ''assistant'', content = ''AB'',
      created_at = ''2025-01-01T00:00:00.000Z'', isStreaming = Some False,
      emotion = Some ''happy''\<rparr>"
proof -
  have a: "\<not> last_streaming (messages (initialState None))"
    by (simp add: initialState_def)
  have b: "last_streaming (messages ex_state_streaming)"
    by (simp add: ex_state_streaming_def ex_streaming_def streaming_assistant_def last_streaming_def)
  show ?thesis
    using a b
      stream_end_finalizes[where st = "initialState None" and ?c1.0 = ex_clock and ?c2.0 = ex_clock
        and ?c3.0 = ex_clock]
      stream_end_finalizes[where st = ex_state_streaming and clk = ex_clock
        and emo = "Some ''happy''" and c = "Some ''final''"]
    by (simp add: initialState_def ex_clock_def ex_state_streaming_def ex_streaming_def dec_1000
        on_event_def last_streaming_def streaming_assistant_def truthy_def Let_def)
qed

text \<open>
  Claim C8 as stated fails for a final content that is supplied but empty: the reducer
  takes \<^verbatim>\<open>payload.content || lastMsg.content\<close>, so the accumulated content \<^verbatim>\<open>AB\<close> stays.
\<close>

theorem stream_end_empty_content_counterexample:
  "last_streaming (messages ex_state_streaming) \<and>
   content (last (messages
      (on_event ex_clock (StreamEnd (Some ''happy'') (Some [])) ex_state_streaming))) = ''AB'' \<and>
   content (last (messages
      (on_event ex_clock (StreamEnd (Some ''happy'') (Some [])) ex_state_streaming))) \<noteq> []"
  by (simp add: ex_state_streaming_def ex_streaming_def streaming_assistant_def
      last_streaming_def on_event_def truthy_def initialState_def Let_def)

text \<open>
  Claim C9. When the last transcript entry is not a streaming assistant message (the
  empty transcript included), a \<^verbatim>\<open>stream_end\<close> event leaves the transcript as it is,
  whatever emotion and content it carries.
\<close>

theorem stream_end_noop:
  "\<not> last_streaming (messages st) \<Longrightarrow>
   messages (on_event clk (StreamEnd emo c) st) = messages st"
  by (auto simp add: on_event_def last_streaming_def Let_def)

theorem stream_end_noop_witness:
  "\<not> last_streaming (messages (initialState None)) \<and>
   messages (on_event ex_clock (StreamEnd (Some ''happy'') (Some ''final'')) (initialState None)) = []"
proof -
  have a: "\<not> last_streaming (messages (initialState None))"
    by (simp add: initialState_def)
  show ?thesis
    using a stream_end_noop[OF a, of ex_clock "Some ''happy''" "Some ''final''"]
    by (simp add: initialState_def)
qed

section \<open>The invariant of the transcript\<close>

lemma transcript_inv_Nil: "transcript_inv []"
  by (simp add: transcript_inv_def)

lemma transcript_inv_snoc:
  "transcript_inv (ms @ [m]) =
     (list_all (\<lambda>m. isStreaming m \<noteq> Some True) ms \<and>
      (isStreaming m \<noteq> Some True \<or> role m = ''assistant''))"
  by (simp add: transcript_inv_def)

lemma inv_all_quiet:
  "transcript_inv ms \<Longrightarrow> \<not> last_streaming ms \<Longrightarrow>
   list_all (\<lambda>m. isStreaming m \<noteq> Some True) ms"
  by (cases ms rule: rev_cases)
     (auto simp: transcript_inv_snoc streaming_assistant_def)

text \<open>
  Claim C2, as amended. Every transition of the reducer keeps the invariant (no message
  but the last is streaming, and a streaming last message is an assistant message), with
  two provisos: a message is appended by \<^verbatim>\<open>ADD_USER_MESSAGE\<close> (the \<^verbatim>\<open>user_message_echo\<close> event,
  \<^verbatim>\<open>sendMessage\<close>) or \<^verbatim>\<open>START_ASSISTANT_MESSAGE\<close> only while the last entry is not a streaming
  assistant message, and the messages that \<^verbatim>\<open>LOAD_SESSION_MESSAGES\<close> (the \<^verbatim>\<open>session_loaded\<close>
  event) installs satisfy the invariant themselves.
\<close>

theorem transcript_inv_preserved:
  assumes "transcript_inv (messages st)"
    and "\<forall>i c. a = ADD_USER_MESSAGE i c \<longrightarrow> \<not> last_streaming (messages st)"
    and "\<forall>i. a = START_ASSISTANT_MESSAGE i \<longrightarrow> \<not> last_streaming (messages st)"
    and "\<forall>ms. a = LOAD_SESSION_MESSAGES ms \<longrightarrow> transcript_inv ms"
  shows "transcript_inv (messages (chatReducer clk st a))"
proof (cases a)
  case (APPEND_STREAM_DELTA d)
  show ?thesis
  proof (cases "last_streaming (messages st)")
    case True
    then obtain ms m where msm: "messages st = ms @ [m]" and sa: "streaming_assistant m"
      by (cases "messages st" rule: rev_cases) (auto simp: last_streaming_def)
    then show ?thesis using assms(1) APPEND_STREAM_DELTA
      by (simp add: transcript_inv_snoc last_streaming_def Let_def streaming_assistant_def)
  next
    case False
    then show ?thesis using assms(1) APPEND_STREAM_DELTA inv_all_quiet[OF assms(1) False]
      by (auto simp add: transcript_inv_snoc last_streaming_def Let_def)
  qed
next
  case (FINISH_ASSISTANT_MESSAGE emo c)
  show ?thesis
  proof (cases "last_streaming (messages st)")
    case True
    then obtain ms m where msm: "messages st = ms @ [m]" and sa: "streaming_assistant m"
      by (cases "messages st" rule: rev_cases) (auto simp: last_streaming_def)
    then show ?thesis using assms(1) FINISH_ASSISTANT_MESSAGE
      by (simp add: transcript_inv_snoc last_streaming_def Let_def streaming_assistant_def)
  next
    case False
    then show ?thesis using assms(1) FINISH_ASSISTANT_MESSAGE
      by (auto simp add: last_streaming_def Let_def)
  qed
next
  case (ADD_USER_MESSAGE i c)
  then show ?thesis using assms(1,2) inv_all_quiet[of "messages st"]
    by (simp add: transcript_inv_snoc)
next
  case (START_ASSISTANT_MESSAGE i)
  then show ?thesis using assms(1,3) inv_all_quiet[of "messages st"]
    by (simp add: transcript_inv_snoc)
next
  case (LOAD_SESSION_MESSAGES ms)
  then show ?thesis using assms(4) by simp
next
  case (REMOVE_SESSION sid)
  then show ?thesis using assms(1) by (simp add: transcript_inv_Nil)
next
  case CLEAR_MESSAGES
  then show ?thesis by (simp add: transcript_inv_Nil)
qed (use assms(1) in simp_all)

theorem transcript_inv_preserved_witness:
  "transcript_inv (messages (initialState None)) \<and>
   \<not> last_streaming (messages (initialState None)) \<and>
   transcript_inv [ex_streaming] \<and>
   transcript_inv (messages (chatReducer ex_clock (initialState None) (ADD_USER_MESSAGE None ''hi''))) \<and>
   transcript_inv (messages (chatReducer ex_clock (initialState None) (START_ASSISTANT_MESSAGE None))) \<and>
   transcript_inv (messages (chatReducer ex_clock (initialState None) (LOAD_SESSION_MESSAGES [ex_streaming])))"
proof -
  have a: "transcript_inv (messages (initialState None))"
    by (simp add: initialState_def transcript_inv_def)
  have b: "\<not> last_streaming (messages (initialState None))"
    by (simp add: initialState_def)
  have c: "transcript_inv [ex_streaming]"
    by (simp add: transcript_inv_def ex_streaming_def)
  show ?thesis
    using a b c
      transcript_inv_preserved[OF a, of "ADD_USER_MESSAGE None ''hi''" ex_clock]
      transcript_inv_preserved[OF a, of "START_ASSISTANT_MESSAGE None" ex_clock]
      transcript_inv_preserved[OF a, of "LOAD_SESSION_MESSAGES [ex_streaming]" ex_clock]
    by simp
qed

text \<open>
  Claim C2 as stated fails: from the initial state, a \<^verbatim>\<open>stream\<close> delta followed by a
  \<^verbatim>\<open>user_message_echo\<close> leaves a streaming assistant message that is not the last entry.
\<close>

theorem user_echo_breaks_inv_counterexample:
  "transcript_inv (messages (initialState None)) \<and>
   transcript_inv (messages (run_events [(ex_clock, Stream ''A'')] (initialState None))) \<and>
   \<not> transcript_inv (messages (run_events
        [(ex_clock, Stream ''A''), (ex_clock, UserMessageEcho ''hi'')] (initialState None))) \<and>
   map isStreaming (messages (run_events
        [(ex_clock, Stream ''A''), (ex_clock, UserMessageEcho ''hi'')] (initialState None))) =
     [Some True, None]"
  by (simp add: initialState_def transcript_inv_def on_event_def Let_def
      streaming_assistant_def truthy_def)

section \<open>Deleting a session\<close>

text \<open>
  Claim C6. The \<^verbatim>\<open>session_deleted\<close> event is one reducer action. For the active session it
  removes the matching sessions from the roster, sets the active session id to null and
  empties the transcript; for any other session it only removes the matching sessions
  from the roster, so the active session id and the transcript stay as they are.
\<close>

theorem session_deleted_effect:
  "provider_actions clk (SessionDeleted sid) = [REMOVE_SESSION sid] \<and>
   (activeSessionId st = Some sid \<longrightarrow>
      on_event clk (SessionDeleted sid) st =
        st\<lparr>sessions := filter (\<lambda>s. session_id s \<noteq> sid) (sessions st),
           activeSessionId := None, messages := []\<rparr>) \<and>
   (activeSessionId st \<noteq> Some sid \<longrightarrow>
      on_event clk (SessionDeleted sid) st =
        st\<lparr>sessions := filter (\<lambda>s. session_id s \<noteq> sid) (sessions st)\<rparr>)"
  by (simp add: on_event_def)

theorem session_deleted_effect_witness:
  "activeSessionId ex_state_two_sessions = Some ''s1'' \<and>
   on_event ex_clock (SessionDeleted ''s1'') ex_state_two_sessions =
     ex_state_two_sessions\<lparr>sessions := [ex_session ''s2''], activeSessionId := None,
        messages := []\<rparr> \<and>
   activeSessionId ex_state_two_sessions \<noteq> Some ''s2'' \<and>
   on_event ex_clock (SessionDeleted ''s2'') ex_state_two_sessions =
     ex_state_two_sessions\<lparr>sessions := [ex_session ''s1'']\<rparr>"
  using session_deleted_effect[of ex_clock "''s1''" ex_state_two_sessions]
    session_deleted_effect[of ex_clock "''s2''" ex_state_two_sessions]
  by (simp add: ex_state_two_sessions_def ex_session_def)

section \<open>What the subscribers leave alone\<close>

lemma transport_updates [simp]:
  "transport (w\<lparr>chat := c\<rparr>) = transport w"
  "transport (w\<lparr>audioRef := a\<rparr>) = transport w"
  "transport (w\<lparr>listeners := l\<rparr>) = transport w"
  "transport (w\<lparr>trace := t\<rparr>) = transport w"
  "transport (w\<lparr>next_closure := n\<rparr>) = transport w"
  by (simp_all add: transport_def)

lemma transport_eqD:
  "transport a = transport b \<Longrightarrow>
   sockets a = sockets b \<and> ws a = ws b \<and> svc_userId a = svc_userId b \<and>
   reconnectAttempts a = reconnectAttempts b \<and> timers a = timers b"
  by (simp add: transport_def)

lemma is_open_transport: "transport a = transport b \<Longrightarrow> is_open a = is_open b"
  by (auto simp add: transport_def is_open_def split: option.splits)

lemma transport_dispatch [simp]: "transport (dispatch clk a w) = transport w"
  by (simp add: dispatch_def)

lemma transport_send [simp]: "transport (snd (ws_send f w)) = transport w"
  by (simp add: ws_send_def)

lemma transport_off [simp]: "transport (ws_off name h w) = transport w"
  by (simp add: ws_off_def split: option.splits)

lemma transport_on [simp]: "transport (ws_on name h w) = transport w"
  by (simp add: ws_on_def)

lemma transport_dispatch_all [simp]:
  "transport (foldl (\<lambda>v a. dispatch clk a v) w acts) = transport w"
  by (induction acts arbitrary: w) simp_all

lemma transport_provider_handler [simp]: "transport (provider_handler clk ev w) = transport w"
  by (cases ev) (simp_all add: provider_handler_def Let_def)

lemma transport_run_handler [simp]: "transport (run_handler clk ev h w) = transport w"
  by (cases h) (simp_all add: ws_chat_def)

lemma forEach_preserves:
  assumes "\<And>h w. f (call h w) = f w"
  shows "f (forEach call arr r k w) = f w"
  by (induction r arbitrary: k w) (simp_all add: assms)

lemma transport_emit [simp]: "transport (ws_emit clk name ev w) = transport w"
  by (simp add: ws_emit_def Let_def forEach_preserves[where f = transport] split: option.splits)

lemma transport_handleMessage [simp]: "transport (ws_handleMessage clk ev w) = transport w"
  by (simp add: ws_handleMessage_def)

lemma transport_settle [simp]: "transport (settle clk p ok w) = transport w"
  by (cases p) (simp_all add: settle_def Let_def ws_listSessions_def)

section \<open>The trace only grows\<close>

lemma trace_dispatch: "trace (dispatch clk a w) = trace w @ [Dispatched a]"
  by (simp add: dispatch_def)

lemma trace_send: "\<exists>es. trace (snd (ws_send f w)) = trace w @ es"
  by (simp add: ws_send_def)

lemma trace_dispatch_all: "\<exists>es. trace (foldl (\<lambda>v a. dispatch clk a v) w acts) = trace w @ es"
proof (induction acts arbitrary: w)
  case Nil
  then show ?case by simp
next
  case (Cons a acts)
  from Cons[of "dispatch clk a w"] show ?case by (auto simp add: trace_dispatch)
qed

lemma trace_run_handler: "\<exists>es. trace (run_handler clk ev h w) = trace w @ es"
proof (cases h)
  case ProviderHandler
  then show ?thesis using trace_dispatch_all[of clk w "provider_actions clk ev"]
    by (cases ev) (auto simp add: provider_handler_def Let_def)
next
  case (DeferredSend n c)
  then show ?thesis
    by (simp add: ws_off_def ws_chat_def ws_send_def trace_dispatch split: option.splits)
qed

lemma forEach_trace:
  assumes "\<And>h w. \<exists>es. trace (call h w) = trace w @ es"
  shows "\<exists>es. trace (forEach call arr r k w) = trace w @ es"
proof (induction r arbitrary: k w)
  case 0
  then show ?case by simp
next
  case (Suc r)
  let ?w' = "if k < length (arr w) then call (arr w ! k) w else w"
  obtain es where es: "trace ?w' = trace w @ es" using assms by (cases "k < length (arr w)") auto
  obtain es' where "trace (forEach call arr r (Suc k) ?w') = trace ?w' @ es'" using Suc by blast
  then show ?case using es by simp
qed

lemma trace_emit: "\<exists>es. trace (ws_emit clk name ev w) = trace w @ Emitted name # es"
proof (cases "listeners w name")
  case None
  then show ?thesis by (simp add: ws_emit_def)
next
  case (Some cs)
  let ?w' = "w\<lparr>trace := trace w @ [Emitted name]\<rparr>"
  obtain es where "trace (forEach (run_handler clk ev) (subscribers name) (length cs) 0 ?w')
      = trace ?w' @ es"
    using forEach_trace[of "run_handler clk ev", OF trace_run_handler] by blast
  then show ?thesis using Some by (simp add: ws_emit_def)
qed

lemma trace_settle: "\<exists>es. trace (settle clk p ok w) = trace w @ (if ok then Resolved else Rejected) # es"
  by (cases p) (simp_all add: settle_def Let_def ws_listSessions_def ws_send_def dispatch_def)

section \<open>Reconnection\<close>

lemma onclose_counts:
  assumes "i < length (sockets w)" and "readyState (sockets w ! i) \<noteq> CLOSED"
  shows "reconnectAttempts (ws_onclose clk i w) =
           (if reconnectAttempts w < 5 then reconnectAttempts w + 1 else reconnectAttempts w)"
    and "timers (ws_onclose clk i w) =
           (if reconnectAttempts w < 5 then timers w @ [3000] else timers w)"
    and "svc_userId (ws_onclose clk i w) = svc_userId w"
    and "ws (ws_onclose clk i w) = ws w"
    and "sockets (ws_onclose clk i w) = (sockets w)[i := (sockets w ! i)\<lparr>readyState := CLOSED\<rparr>]"
proof -
  let ?w1 = "w\<lparr>sockets := (sockets w)[i := (sockets w ! i)\<lparr>readyState := CLOSED\<rparr>]\<rparr>"
  let ?w2 = "ws_emit clk ''disconnected'' Disconnected ?w1"
  have t: "transport ?w2 = transport ?w1" by simp
  have f: "reconnectAttempts ?w2 = reconnectAttempts w" "timers ?w2 = timers w"
    "svc_userId ?w2 = svc_userId w" "ws ?w2 = ws w"
    "sockets ?w2 = (sockets w)[i := (sockets w ! i)\<lparr>readyState := CLOSED\<rparr>]"
    using transport_eqD[OF t] by simp_all
  show "reconnectAttempts (ws_onclose clk i w) =
           (if reconnectAttempts w < 5 then reconnectAttempts w + 1 else reconnectAttempts w)"
    using assms f by (simp add: ws_onclose_def Let_def maxReconnectAttempts_def)
  show "timers (ws_onclose clk i w) =
           (if reconnectAttempts w < 5 then timers w @ [3000] else timers w)"
    using assms f by (simp add: ws_onclose_def Let_def maxReconnectAttempts_def reconnectDelay_def)
  show "svc_userId (ws_onclose clk i w) = svc_userId w"
    using assms f by (simp add: ws_onclose_def Let_def)
  show "ws (ws_onclose clk i w) = ws w"
    using assms f by (simp add: ws_onclose_def Let_def)
  show "sockets (ws_onclose clk i w) = (sockets w)[i := (sockets w ! i)\<lparr>readyState := CLOSED\<rparr>]"
    using assms f by (simp add: ws_onclose_def Let_def)
qed

lemma transport_settle_socket:
  "transport (settle_socket clk i ok w) =
     transport (if settled (sockets w ! i) then w
                else w\<lparr>sockets := (sockets w)[i := (sockets w ! i)\<lparr>settled := True\<rparr>]\<rparr>)"
  by (simp add: settle_socket_def)

lemma onopen_resets:
  assumes "i < length (sockets w)" and "readyState (sockets w ! i) = CONNECTING"
  shows "reconnectAttempts (ws_onopen clk i w) = 0"
proof -
  let ?w2 = "w\<lparr>sockets := (sockets w)[i := (sockets w ! i)\<lparr>readyState := OPEN\<rparr>],
               reconnectAttempts := 0\<rparr>"
  let ?w3 = "ws_emit clk ''connected'' Connected ?w2"
  have t: "transport ?w3 = transport ?w2" by simp
  have "reconnectAttempts ?w3 = 0" using transport_eqD[OF t] by simp
  moreover have "reconnectAttempts (settle_socket clk i True ?w3) = reconnectAttempts ?w3"
    using transport_eqD[OF transport_settle_socket[of clk i True ?w3]]
    by (simp split: if_splits)
  ultimately show ?thesis using assms by (simp add: ws_onopen_def Let_def)
qed

lemma onerror_rejects:
  assumes "i < length (sockets w)" and "\<not> settled (sockets w ! i)"
  shows "reconnectAttempts (ws_onerror clk i w) = reconnectAttempts w"
    and "timers (ws_onerror clk i w) = timers w"
    and "sockets (ws_onerror clk i w) = (sockets w)[i := (sockets w ! i)\<lparr>settled := True\<rparr>]"
    and "\<exists>es es'. trace (ws_onerror clk i w) = trace w @ Emitted ''error'' # es @ Rejected # es'"
proof -
  let ?w1 = "ws_emit clk ''error'' (ErrorEv None) w"
  let ?w2 = "?w1\<lparr>sockets := (sockets ?w1)[i := (sockets ?w1 ! i)\<lparr>settled := True\<rparr>]\<rparr>"
  have t1: "transport ?w1 = transport w" by simp
  have s1: "sockets ?w1 = sockets w" using transport_eqD[OF t1] by simp
  have e: "ws_onerror clk i w = settle clk (waiter (sockets w ! i)) False ?w2"
    using assms by (simp add: ws_onerror_def settle_socket_def s1)
  have t2: "transport (ws_onerror clk i w) = transport ?w2" by (simp add: e)
  show "reconnectAttempts (ws_onerror clk i w) = reconnectAttempts w"
    using transport_eqD[OF t2] transport_eqD[OF t1] by simp
  show "timers (ws_onerror clk i w) = timers w"
    using transport_eqD[OF t2] transport_eqD[OF t1] by simp
  show "sockets (ws_onerror clk i w) = (sockets w)[i := (sockets w ! i)\<lparr>settled := True\<rparr>]"
    using transport_eqD[OF t2] s1 by simp
  obtain es where es: "trace ?w1 = trace w @ Emitted ''error'' # es"
    using trace_emit by blast
  obtain es' where "trace (settle clk (waiter (sockets w ! i)) False ?w2) = trace ?w2 @ Rejected # es'"
    using trace_settle[of clk _ False ?w2] by auto
  then show "\<exists>es es'. trace (ws_onerror clk i w) = trace w @ Emitted ''error'' # es @ Rejected # es'"
    using es e by auto
qed

lemma timer_fire_reconnects:
  assumes "timers w = t # ts" and "\<not> is_open w"
  shows "sockets (timer_fire clk w) =
           sockets w @ [\<lparr>target = svc_userId w, readyState = CONNECTING, waiter = Dropped,
                          settled = False\<rparr>]"
    and "ws (timer_fire clk w) = Some (length (sockets w))"
    and "timers (timer_fire clk w) = ts"
    and "reconnectAttempts (timer_fire clk w) = reconnectAttempts w"
    and "svc_userId (timer_fire clk w) = svc_userId w"
proof -
  have o: "\<not> is_open (w\<lparr>timers := ts\<rparr>)" using assms(2) by (auto simp add: is_open_def split: option.splits)
  show "sockets (timer_fire clk w) =
           sockets w @ [\<lparr>target = svc_userId w, readyState = CONNECTING, waiter = Dropped,
                          settled = False\<rparr>]"
    using assms(1) o by (simp add: timer_fire_def ws_connect_def)
  show "ws (timer_fire clk w) = Some (length (sockets w))"
    using assms(1) o by (simp add: timer_fire_def ws_connect_def)
  show "timers (timer_fire clk w) = ts"
    using assms(1) o by (simp add: timer_fire_def ws_connect_def)
  show "reconnectAttempts (timer_fire clk w) = reconnectAttempts w"
    using assms(1) o by (simp add: timer_fire_def ws_connect_def)
  show "svc_userId (timer_fire clk w) = svc_userId w"
    using assms(1) o by (simp add: timer_fire_def ws_connect_def)
qed

lemma last_attempt:
  assumes "ws w = Some i" and "i < length (sockets w)"
    and "readyState (sockets w ! i) \<noteq> CLOSED"
    and "reconnectAttempts w = 4" and "timers w = []"
  shows "timers (ws_onclose c1 i w) = [3000]"
    and "reconnectAttempts (ws_onclose c1 i w) = 5"
    and "sockets (timer_fire c2 (ws_onclose c1 i w)) =
           (sockets w)[i := (sockets w ! i)\<lparr>readyState := CLOSED\<rparr>] @
           [\<lparr>target = svc_userId w, readyState = CONNECTING, waiter = Dropped, settled = False\<rparr>]"
    and "timers (timer_fire c2 (ws_onclose c1 i w)) = []"
    and "timers (ws_onclose c4 (length (sockets w))
           (ws_onerror c3 (length (sockets w)) (timer_fire c2 (ws_onclose c1 i w)))) = []"
    and "reconnectAttempts (ws_onclose c4 (length (sockets w))
           (ws_onerror c3 (length (sockets w)) (timer_fire c2 (ws_onclose c1 i w)))) = 5"
proof -
  let ?w1 = "ws_onclose c1 i w"
  let ?w2 = "timer_fire c2 ?w1"
  let ?j = "length (sockets w)"
  let ?w3 = "ws_onerror c3 ?j ?w2"
  note c1 = onclose_counts[OF assms(2,3), of c1]
  show t1: "timers ?w1 = [3000]" using c1(2) assms by simp
  show a1: "reconnectAttempts ?w1 = 5" using c1(1) assms by simp
  have no: "\<not> is_open ?w1" using c1(4,5) assms by (simp add: is_open_def)
  note f = timer_fire_reconnects[OF t1 no, of c2]
  show s2: "sockets ?w2 =
           (sockets w)[i := (sockets w ! i)\<lparr>readyState := CLOSED\<rparr>] @
           [\<lparr>target = svc_userId w, readyState = CONNECTING, waiter = Dropped, settled = False\<rparr>]"
    using f(1) c1(3,5) by simp
  show t2: "timers ?w2 = []" using f(3) .
  have a2: "reconnectAttempts ?w2 = 5" using f(4) a1 by simp
  have j2: "?j < length (sockets ?w2)" by (simp add: s2)
  have u2: "\<not> settled (sockets ?w2 ! ?j)" by (simp add: s2 nth_append)
  note e = onerror_rejects[OF j2 u2, of c3]
  have j3: "?j < length (sockets ?w3)" using e(3) j2 by simp
  have r3: "readyState (sockets ?w3 ! ?j) \<noteq> CLOSED" using e(3) by (simp add: s2 nth_append)
  note c4 = onclose_counts[OF j3 r3, of c4]
  show "timers (ws_onclose c4 ?j ?w3) = []" using c4(2) e(1,2) a2 t2 by simp
  show "reconnectAttempts (ws_onclose c4 ?j ?w3) = 5" using c4(1) e(1) a2 by simp
qed

lemma mounted_listeners:
  "listeners (mount (initial_world stored)) =
     (\<lambda>name. if name \<in> set provider_events then Some [ProviderHandler] else None)"
  by (rule ext) (simp add: mount_def initial_world_def provider_events_def ws_on_def)

lemma ex_world_connecting_transport:
  "transport ex_world_connecting =
     ([\<lparr>target = Some ''u1'', readyState = CONNECTING, waiter = Awaited, settled = False\<rparr>],
      Some 0, Some ''u1'', 0, [])"
proof -
  have "transport (mount (initial_world None)) = ([], None, None, 0, [])"
    by (simp add: mount_def transport_def initial_world_def provider_events_def ws_on_def)
  then show ?thesis
    by (simp add: ex_world_connecting_def connect_def ws_connect_def Let_def is_open_def
        transport_def dispatch_def)
qed

lemma ex_world_connected_transport:
  "transport ex_world_connected =
     ([\<lparr>target = Some ''u1'', readyState = OPEN, waiter = Awaited, settled = True\<rparr>],
      Some 0, Some ''u1'', 0, [])"
proof -
  let ?w2 = "ex_world_connecting\<lparr>sockets :=
        (sockets ex_world_connecting)[0 := (sockets ex_world_connecting ! 0)\<lparr>readyState := OPEN\<rparr>],
      reconnectAttempts := 0\<rparr>"
  let ?w3 = "ws_emit ex_clock ''connected'' Connected ?w2"
  have c: "sockets ex_world_connecting =
       [\<lparr>target = Some ''u1'', readyState = CONNECTING, waiter = Awaited, settled = False\<rparr>]"
    "ws ex_world_connecting = Some 0" "svc_userId ex_world_connecting = Some ''u1''"
    "reconnectAttempts ex_world_connecting = 0" "timers ex_world_connecting = []"
    using ex_world_connecting_transport by (simp_all add: transport_def)
  have t3: "transport ?w3 = transport ?w2" by simp
  have e: "ex_world_connected = settle_socket ex_clock 0 True ?w3"
    by (simp add: ex_world_connected_def ws_onopen_def c Let_def)
  have s3: "sockets ?w3 = [\<lparr>target = Some ''u1'', readyState = OPEN, waiter = Awaited, settled = False\<rparr>]"
    using transport_eqD[OF t3] by (simp add: c)
  show ?thesis
    unfolding e transport_settle_socket
    using transport_eqD[OF t3] by (simp add: s3 transport_def c)
qed

text \<open>
  Claim C4. A close of a transport while the attempt count is below 5 increments the
  count and schedules exactly one timer with delay 3000; when that timer fires and no
  transport is open, a new transport to the identifier last used is created. An open
  resets the count to zero. An error on a transport whose connect is pending emits
  \<^verbatim>\<open>error\<close>, rejects the connect and leaves count and timers as they are. With the count
  at 5 or more a close schedules nothing and leaves the count. In particular, when the
  current transport closes at count 4, one timer is scheduled and the count becomes 5;
  after the timer has fired and the new transport has failed (error, then close), no
  timer is pending and the count is still 5.
\<close>

theorem reconnection_policy:
  "(i < length (sockets w) \<and> readyState (sockets w ! i) \<noteq> CLOSED \<and> reconnectAttempts w < 5 \<longrightarrow>
      reconnectAttempts (ws_onclose clk i w) = reconnectAttempts w + 1 \<and>
      timers (ws_onclose clk i w) = timers w @ [3000] \<and>
      svc_userId (ws_onclose clk i w) = svc_userId w) \<and>
   (timers w = t # ts \<and> \<not> is_open w \<longrightarrow>
      sockets (timer_fire clk w) =
        sockets w @ [\<lparr>target = svc_userId w, readyState = CONNECTING, waiter = Dropped,
                       settled = False\<rparr>] \<and>
      ws (timer_fire clk w) = Some (length (sockets w)) \<and>
      timers (timer_fire clk w) = ts \<and>
      reconnectAttempts (timer_fire clk w) = reconnectAttempts w) \<and>
   (i < length (sockets w) \<and> readyState (sockets w ! i) = CONNECTING \<longrightarrow>
      reconnectAttempts (ws_onopen clk i w) = 0) \<and>
   (i < length (sockets w) \<and> \<not> settled (sockets w ! i) \<longrightarrow>
      reconnectAttempts (ws_onerror clk i w) = reconnectAttempts w \<and>
      timers (ws_onerror clk i w) = timers w \<and>
      settled (sockets (ws_onerror clk i w) ! i) \<and>
      (\<exists>es es'. trace (ws_onerror clk i w) = trace w @ Emitted ''error'' # es @ Rejected # es')) \<and>
   (i < length (sockets w) \<and> readyState (sockets w ! i) \<noteq> CLOSED \<and> 5 \<le> reconnectAttempts w \<longrightarrow>
      reconnectAttempts (ws_onclose clk i w) = reconnectAttempts w \<and>
      timers (ws_onclose clk i w) = timers w) \<and>
   (ws w = Some i \<and> i < length (sockets w) \<and> readyState (sockets w ! i) \<noteq> CLOSED \<and>
    reconnectAttempts w = 4 \<and> timers w = [] \<longrightarrow>
      timers (ws_onclose c1 i w) = [3000] \<and>
      reconnectAttempts (ws_onclose c1 i w) = 5 \<and>
      sockets (timer_fire c2 (ws_onclose c1 i w)) =
        (sockets w)[i := (sockets w ! i)\<lparr>readyState := CLOSED\<rparr>] @
        [\<lparr>target = svc_userId w, readyState = CONNECTING, waiter = Dropped, settled = False\<rparr>] \<and>
      timers (timer_fire c2 (ws_onclose c1 i w)) = [] \<and>
      timers (ws_onclose c4 (length (sockets w))
         (ws_onerror c3 (length (sockets w)) (timer_fire c2 (ws_onclose c1 i w)))) = [] \<and>
      reconnectAttempts (ws_onclose c4 (length (sockets w))
         (ws_onerror c3 (length (sockets w)) (timer_fire c2 (ws_onclose c1 i w)))) = 5)"
proof (intro conjI impI)
  assume a: "i < length (sockets w) \<and> readyState (sockets w ! i) \<noteq> CLOSED \<and> reconnectAttempts w < 5"
  then have b: "i < length (sockets w)" "readyState (sockets w ! i) \<noteq> CLOSED" by simp_all
  show "reconnectAttempts (ws_onclose clk i w) = reconnectAttempts w + 1"
    using onclose_counts(1)[OF b, of clk] a by simp
  show "timers (ws_onclose clk i w) = timers w @ [3000]"
    using onclose_counts(2)[OF b, of clk] a by simp
  show "svc_userId (ws_onclose clk i w) = svc_userId w"
    using onclose_counts(3)[OF b, of clk] .
next
  assume a: "timers w = t # ts \<and> \<not> is_open w"
  then have b: "timers w = t # ts" "\<not> is_open w" by simp_all
  show "sockets (timer_fire clk w) =
        sockets w @ [\<lparr>target = svc_userId w, readyState = CONNECTING, waiter = Dropped,
                       settled = False\<rparr>]"
    using timer_fire_reconnects(1)[OF b] .
  show "ws (timer_fire clk w) = Some (length (sockets w))"
    using timer_fire_reconnects(2)[OF b] .
  show "timers (timer_fire clk w) = ts"
    using timer_fire_reconnects(3)[OF b] .
  show "reconnectAttempts (timer_fire clk w) = reconnectAttempts w"
    using timer_fire_reconnects(4)[OF b] .
next
  assume "i < length (sockets w) \<and> readyState (sockets w ! i) = CONNECTING"
  then show "reconnectAttempts (ws_onopen clk i w) = 0"
    using onopen_resets by simp
next
  assume a: "i < length (sockets w) \<and> \<not> settled (sockets w ! i)"
  then have b: "i < length (sockets w)" "\<not> settled (sockets w ! i)" by simp_all
  show "reconnectAttempts (ws_onerror clk i w) = reconnectAttempts w"
    using onerror_rejects(1)[OF b] .
  show "timers (ws_onerror clk i w) = timers w"
    using onerror_rejects(2)[OF b] .
  show "settled (sockets (ws_onerror clk i w) ! i)"
    using onerror_rejects(3)[OF b, of clk] b(1) by simp
  show "\<exists>es es'. trace (ws_onerror clk i w) = trace w @ Emitted ''error'' # es @ Rejected # es'"
    using onerror_rejects(4)[OF b] .
next
  assume a: "i < length (sockets w) \<and> readyState (sockets w ! i) \<noteq> CLOSED \<and> 5 \<le> reconnectAttempts w"
  then have b: "i < length (sockets w)" "readyState (sockets w ! i) \<noteq> CLOSED" by simp_all
  show "reconnectAttempts (ws_onclose clk i w) = reconnectAttempts w"
    using onclose_counts(1)[OF b, of clk] a by simp
  show "timers (ws_onclose clk i w) = timers w"
    using onclose_counts(2)[OF b, of clk] a by simp
next
  assume a: "ws w = Some i \<and> i < length (sockets w) \<and> readyState (sockets w ! i) \<noteq> CLOSED \<and>
    reconnectAttempts w = 4 \<and> timers w = []"
  then have b: "ws w = Some i" "i < length (sockets w)" "readyState (sockets w ! i) \<noteq> CLOSED"
    "reconnectAttempts w = 4" "timers w = []" by simp_all
  show "timers (ws_onclose c1 i w) = [3000]" using last_attempt(1)[OF b] .
  show "reconnectAttempts (ws_onclose c1 i w) = 5" using last_attempt(2)[OF b] .
  show "sockets (timer_fire c2 (ws_onclose c1 i w)) =
        (sockets w)[i := (sockets w ! i)\<lparr>readyState := CLOSED\<rparr>] @
        [\<lparr>target = svc_userId w, readyState = CONNECTING, waiter = Dropped, settled = False\<rparr>]"
    using last_attempt(3)[OF b] .
  show "timers (timer_fire c2 (ws_onclose c1 i w)) = []" using last_attempt(4)[OF b] .
  show "timers (ws_onclose c4 (length (sockets w))
         (ws_onerror c3 (length (sockets w)) (timer_fire c2 (ws_onclose c1 i w)))) = []"
    using last_attempt(5)[OF b] .
  show "reconnectAttempts (ws_onclose c4 (length (sockets w))
         (ws_onerror c3 (length (sockets w)) (timer_fire c2 (ws_onclose c1 i w)))) = 5"
    using last_attempt(6)[OF b] .
qed

theorem reconnection_policy_witness:
  "reconnectAttempts ex_world_connected < 5 \<and>
   readyState (sockets ex_world_connected ! 0) = OPEN \<and>
   reconnectAttempts (ws_onclose ex_clock 0 ex_world_connected) = 1 \<and>
   timers (ws_onclose ex_clock 0 ex_world_connected) = [3000] \<and>
   \<not> is_open (ws_onclose ex_clock 0 ex_world_connected) \<and>
   map target (sockets (timer_fire ex_clock (ws_onclose ex_clock 0 ex_world_connected))) =
     [Some ''u1'', Some ''u1''] \<and>
   timers (timer_fire ex_clock (ws_onclose ex_clock 0 ex_world_connected)) = [] \<and>
   readyState (sockets ex_world_connecting ! 0) = CONNECTING \<and>
   reconnectAttempts (ws_onopen ex_clock 0 ex_world_connecting) = 0 \<and>
   \<not> settled (sockets ex_world_connecting ! 0) \<and>
   reconnectAttempts (ws_onerror ex_clock 0 ex_world_connecting) = 0 \<and>
   timers (ws_onerror ex_clock 0 ex_world_connecting) = [] \<and>
   settled (sockets (ws_onerror ex_clock 0 ex_world_connecting) ! 0) \<and>
   reconnectAttempts (ws_onclose ex_clock 0 (ex_world_connected\<lparr>reconnectAttempts := 5\<rparr>)) = 5 \<and>
   timers (ws_onclose ex_clock 0 (ex_world_connected\<lparr>reconnectAttempts := 5\<rparr>)) = [] \<and>
   timers (ws_onclose ex_clock 0 (ex_world_connected\<lparr>reconnectAttempts := 4\<rparr>)) = [3000] \<and>
   reconnectAttempts (ws_onclose ex_clock 0 (ex_world_connected\<lparr>reconnectAttempts := 4\<rparr>)) = 5 \<and>
   timers (ws_onclose ex_clock 1 (ws_onerror ex_clock 1 (timer_fire ex_clock
     (ws_onclose ex_clock 0 (ex_world_connected\<lparr>reconnectAttempts := 4\<rparr>))))) = [] \<and>
   reconnectAttempts (ws_onclose ex_clock 1 (ws_onerror ex_clock 1 (timer_fire ex_clock
     (ws_onclose ex_clock 0 (ex_world_connected\<lparr>reconnectAttempts := 4\<rparr>))))) = 5"
proof -
  have c: "sockets ex_world_connected =
       [\<lparr>target = Some ''u1'', readyState = OPEN, waiter = Awaited, settled = True\<rparr>]"
    "ws ex_world_connected = Some 0" "svc_userId ex_world_connected = Some ''u1''"
    "reconnectAttempts ex_world_connected = 0" "timers ex_world_connected = []"
    using ex_world_connected_transport by (simp_all add: transport_def)
  have g: "sockets ex_world_connecting =
       [\<lparr>target = Some ''u1'', readyState = CONNECTING, waiter = Awaited, settled = False\<rparr>]"
    "ws ex_world_connecting = Some 0" "svc_userId ex_world_connecting = Some ''u1''"
    "reconnectAttempts ex_world_connecting = 0" "timers ex_world_connecting = []"
    using ex_world_connecting_transport by (simp_all add: transport_def)
  let ?w1 = "ws_onclose ex_clock 0 ex_world_connected"
  have k: "sockets ?w1 = [\<lparr>target = Some ''u1'', readyState = CLOSED, waiter = Awaited, settled = True\<rparr>]"
    "ws ?w1 = Some 0" "svc_userId ?w1 = Some ''u1''"
    using onclose_counts(3,4,5)[of 0 ex_world_connected ex_clock] by (simp_all add: c)
  have no: "\<not> is_open ?w1" by (simp add: is_open_def k)
  have p1: "reconnectAttempts ?w1 = 1 \<and> timers ?w1 = [3000]"
    using reconnection_policy[where w = ex_world_connected and i = 0 and clk = ex_clock]
    by (simp add: c)
  have p2: "map target (sockets (timer_fire ex_clock ?w1)) = [Some ''u1'', Some ''u1''] \<and>
            timers (timer_fire ex_clock ?w1) = []"
    using reconnection_policy[where w = ?w1 and clk = ex_clock and t = 3000 and ts = "[]"] no p1
    by (simp add: k)
  have p3: "reconnectAttempts (ws_onopen ex_clock 0 ex_world_connecting) = 0 \<and>
            reconnectAttempts (ws_onerror ex_clock 0 ex_world_connecting) = 0 \<and>
            timers (ws_onerror ex_clock 0 ex_world_connecting) = [] \<and>
            settled (sockets (ws_onerror ex_clock 0 ex_world_connecting) ! 0)"
    using reconnection_policy[where w = ex_world_connecting and i = 0 and clk = ex_clock]
    by (simp add: g)
  have p5: "reconnectAttempts (ws_onclose ex_clock 0 (ex_world_connected\<lparr>reconnectAttempts := 5\<rparr>)) = 5 \<and>
            timers (ws_onclose ex_clock 0 (ex_world_connected\<lparr>reconnectAttempts := 5\<rparr>)) = []"
    using reconnection_policy[where w = "ex_world_connected\<lparr>reconnectAttempts := 5\<rparr>"
        and i = 0 and clk = ex_clock]
    by (simp add: c)
  have p6: "timers (ws_onclose ex_clock 0 (ex_world_connected\<lparr>reconnectAttempts := 4\<rparr>)) = [3000] \<and>
   reconnectAttempts (ws_onclose ex_clock 0 (ex_world_connected\<lparr>reconnectAttempts := 4\<rparr>)) = 5 \<and>
   timers (ws_onclose ex_clock 1 (ws_onerror ex_clock 1 (timer_fire ex_clock
     (ws_onclose ex_clock 0 (ex_world_connected\<lparr>reconnectAttempts := 4\<rparr>))))) = [] \<and>
   reconnectAttempts (ws_onclose ex_clock 1 (ws_onerror ex_clock 1 (timer_fire ex_clock
     (ws_onclose ex_clock 0 (ex_world_connected\<lparr>reconnectAttempts := 4\<rparr>))))) = 5"
    using reconnection_policy[where w = "ex_world_connected\<lparr>reconnectAttempts := 4\<rparr>"
        and i = 0 and ?c1.0 = ex_clock and ?c2.0 = ex_clock and ?c3.0 = ex_clock and ?c4.0 = ex_clock]
    by (simp add: c)
  show ?thesis using p1 p2 p3 p5 p6 no by (simp add: c g)
qed

section \<open>One transport at a time\<close>












section \<open>Sending a message\<close>

lemma send_open: "is_open w \<Longrightarrow> snd (ws_send f w) = w\<lparr>trace := trace w @ [Wire f]\<rparr>"
  by (simp add: ws_send_def)

lemma is_open_updates [simp]:
  "is_open (w\<lparr>chat := c\<rparr>) = is_open w"
  "is_open (w\<lparr>audioRef := a\<rparr>) = is_open w"
  "is_open (w\<lparr>listeners := l\<rparr>) = is_open w"
  "is_open (w\<lparr>trace := t\<rparr>) = is_open w"
  "is_open (w\<lparr>next_closure := n\<rparr>) = is_open w"
  by (simp_all add: is_open_def split: option.splits)

lemma sendMessage_deferred:
  assumes "\<not> blank c" and "is_open w" and "\<not> truthy (activeSessionId (chat w))"
    and "listeners w ''session_created'' = Some cs"
  shows "sendMessage clk c w =
     w\<lparr>listeners := (listeners w)
          (''session_created'' \<mapsto> cs @ [DeferredSend (next_closure w) c]),
       trace := trace w @ [Wire NewSession],
       next_closure := Suc (next_closure w)\<rparr>"
  using assms by (simp add: sendMessage_def ws_newSession_def send_open ws_on_def Let_def)

lemma sendMessage_active:
  assumes "\<not> blank c" and "is_open w" and "truthy (activeSessionId (chat w))"
  shows "sendMessage clk c w =
     w\<lparr>chat := chatReducer clk (chat w) (ADD_USER_MESSAGE None c),
       audioRef := None,
       trace := trace w @ [Dispatched (ADD_USER_MESSAGE None c), Wire (Chat c)]\<rparr>"
  using assms by (simp add: sendMessage_def ws_chat_def send_open dispatch_def Let_def)

lemma session_created_deferred:
  assumes "is_open v"
    and "listeners v ''session_created'' = Some (ProviderHandler # DeferredSend n c # rest)"
    and "length rest \<le> 1"
    and "subscribers ''message'' v = []"
  shows "ws_handleMessage clk (SessionCreated sid t) v =
     v\<lparr>chat := chatReducer clk
           (chatReducer clk (chat v)
              (ADD_SESSION \<lparr>session_id = sid,
                 title = (if truthy t then the t else default_title),
                 s_created_at = iso_now clk, updated_at = iso_now clk,
                 message_count = None\<rparr>))
           (ADD_USER_MESSAGE None c),
       listeners := (listeners v)(''session_created'' \<mapsto> ProviderHandler # rest),
       trace := trace v @
         [Emitted ''session_created'',
          Dispatched (ADD_SESSION \<lparr>session_id = sid,
                 title = (if truthy t then the t else default_title),
                 s_created_at = iso_now clk, updated_at = iso_now clk,
                 message_count = None\<rparr>),
          Dispatched (ADD_USER_MESSAGE None c), Wire (Chat c), Emitted ''message'']\<rparr>"
proof -
  consider "rest = []" | d where "rest = [d]"
    using assms(3) by (cases rest) auto
  then show ?thesis
  proof cases
    case 1
    then show ?thesis using assms
      by (simp add: ws_handleMessage_def ws_emit_def Let_def subscribers_def
        provider_handler_def dispatch_def ws_chat_def send_open ws_off_def
        split: option.splits)
  next
    case 2
    then show ?thesis using assms
      by (simp add: ws_handleMessage_def ws_emit_def Let_def subscribers_def
        provider_handler_def dispatch_def ws_chat_def send_open ws_off_def
        split: option.splits)
  qed
qed


lemma mount_eq: "mount w = w\<lparr>listeners := listeners (mount w)\<rparr>"
  by (simp add: mount_def ws_on_def provider_events_def)

lemma ex_world_connecting_eq:
  "ex_world_connecting =
     \<lparr>chat = \<lparr>isConnected = False, isConnecting = True, userId = ''u1'', sessions = [],
              activeSessionId = None, messages = [], isLoading = False,
              currentEmotion = None, error = None\<rparr>,
      audioRef = None,
      sockets = [\<lparr>target = Some ''u1'', readyState = CONNECTING, waiter = Awaited,
                  settled = False\<rparr>],
      ws = Some 0, svc_userId = Some ''u1'',
      listeners = listeners (mount (initial_world None)),
      reconnectAttempts = 0, timers = [],
      trace = [Dispatched SET_CONNECTING, Dispatched (SET_USER_ID ''u1'')],
      next_closure = 0\<rparr>"
  apply (subst ex_world_connecting_def)
  apply (subst mount_eq)
  apply (simp add: initial_world_def connect_def ws_connect_def Let_def is_open_def
        dispatch_def initialState_def truthy_def)
  done

lemma ex_world_connected_eq:
  "ex_world_connected =
     \<lparr>chat = \<lparr>isConnected = True, isConnecting = False, userId = ''u1'', sessions = [],
              activeSessionId = None, messages = [], isLoading = False,
              currentEmotion = None, error = None\<rparr>,
      audioRef = None,
      sockets = [\<lparr>target = Some ''u1'', readyState = OPEN, waiter = Awaited, settled = True\<rparr>],
      ws = Some 0, svc_userId = Some ''u1'',
      listeners = listeners (mount (initial_world None)),
      reconnectAttempts = 0, timers = [],
      trace = [Dispatched SET_CONNECTING, Dispatched (SET_USER_ID ''u1''),
               Emitted ''connected'', Dispatched SET_CONNECTED, Resolved, Wire ListSessions],
      next_closure = 0\<rparr>"
  by (simp add: ex_world_connected_def ex_world_connecting_eq ws_onopen_def Let_def
      ws_emit_def mounted_listeners provider_events_def subscribers_def provider_handler_def
      dispatch_def settle_socket_def settle_def ws_listSessions_def ws_send_def is_open_def)

lemma ex_world_connected_facts:
  "is_open ex_world_connected"
  "\<not> truthy (activeSessionId (chat ex_world_connected))"
  "listeners ex_world_connected ''session_created'' = Some [ProviderHandler]"
  "subscribers ''message'' ex_world_connected = []"
  "next_closure ex_world_connected = 0"
  "messages (chat ex_world_connected) = []"
  by (simp_all add: ex_world_connected_eq is_open_def truthy_def mounted_listeners
      provider_events_def subscribers_def)

lemma blank_samples: "\<not> blank ''hi''" "\<not> blank ''a''" "\<not> blank ''b''" "blank '' ''" "blank []"
  by code_simp+

text \<open>
  Claim C3, as amended. With the transport open, no session active and the provider's
  handler the only subscriber of \<^verbatim>\<open>session_created\<close> (no earlier deferred send is waiting),
  \<^verbatim>\<open>sendMessage(c)\<close> for a non-blank \<open>c\<close> sends a \<^verbatim>\<open>new_session\<close> frame, subscribes a
  deferred send behind the provider's handler and appends nothing. When a
  \<^verbatim>\<open>session_created\<close> frame is handled while the transport is open, the subscribers of
  \<^verbatim>\<open>session_created\<close> are exactly the provider's handler and the deferred send of that
  call (no other \<^verbatim>\<open>sendMessage\<close> is waiting, neither an earlier nor a later one) and
  nothing is subscribed to \<^verbatim>\<open>message\<close>, then the session is added and made active,
  exactly one user message with content \<open>c\<close> is appended, the \<^verbatim>\<open>chat\<close> frame is sent after
  that, and the deferred send is no longer subscribed. With a session active and the
  transport open, \<^verbatim>\<open>sendMessage(c)\<close> for a non-blank \<open>c\<close> appends the user message and
  sends the chat frame at once.
\<close>

theorem deferred_send:
  "(\<not> blank c \<and> is_open w \<and> \<not> truthy (activeSessionId (chat w)) \<and>
    listeners w ''session_created'' = Some [ProviderHandler] \<longrightarrow>
      sendMessage clk c w =
        w\<lparr>listeners := (listeners w)
             (''session_created'' \<mapsto> [ProviderHandler, DeferredSend (next_closure w) c]),
          trace := trace w @ [Wire NewSession],
          next_closure := Suc (next_closure w)\<rparr>) \<and>
   (is_open v \<and> listeners v ''session_created'' = Some [ProviderHandler, DeferredSend n c] \<and>
    subscribers ''message'' v = [] \<longrightarrow>
      ws_handleMessage clk' (SessionCreated sid t) v =
        v\<lparr>chat := chatReducer clk'
              (chatReducer clk' (chat v)
                 (ADD_SESSION \<lparr>session_id = sid,
                    title = (if truthy t then the t else default_title),
                    s_created_at = iso_now clk', updated_at = iso_now clk',
                    message_count = None\<rparr>))
              (ADD_USER_MESSAGE None c),
          listeners := (listeners v)(''session_created'' \<mapsto> [ProviderHandler]),
          trace := trace v @
            [Emitted ''session_created'',
             Dispatched (ADD_SESSION \<lparr>session_id = sid,
                    title = (if truthy t then the t else default_title),
                    s_created_at = iso_now clk', updated_at = iso_now clk',
                    message_count = None\<rparr>),
             Dispatched (ADD_USER_MESSAGE None c), Wire (Chat c), Emitted ''message'']\<rparr> \<and>
      messages (chat (ws_handleMessage clk' (SessionCreated sid t) v)) =
        messages (chat v) @
          [\<lparr>msg_id = ''user-'' @ dec (date_now clk'), role = ''user'', content = c,
            created_at = iso_now clk', isStreaming = None, emotion = None\<rparr>] \<and>
      activeSessionId (chat (ws_handleMessage clk' (SessionCreated sid t) v)) = Some sid) \<and>
   (\<not> blank c \<and> is_open w \<and> truthy (activeSessionId (chat w)) \<longrightarrow>
      sendMessage clk c w =
        w\<lparr>chat := chatReducer clk (chat w) (ADD_USER_MESSAGE None c),
          audioRef := None,
          trace := trace w @ [Dispatched (ADD_USER_MESSAGE None c), Wire (Chat c)]\<rparr>)"
proof (intro conjI impI)
  assume "\<not> blank c \<and> is_open w \<and> \<not> truthy (activeSessionId (chat w)) \<and>
    listeners w ''session_created'' = Some [ProviderHandler]"
  then show "sendMessage clk c w =
        w\<lparr>listeners := (listeners w)
             (''session_created'' \<mapsto> [ProviderHandler, DeferredSend (next_closure w) c]),
          trace := trace w @ [Wire NewSession],
          next_closure := Suc (next_closure w)\<rparr>"
    using sendMessage_deferred[of c w "[ProviderHandler]" clk] by simp
next
  assume a: "is_open v \<and> listeners v ''session_created'' = Some [ProviderHandler, DeferredSend n c] \<and>
    subscribers ''message'' v = []"
  then have e: "ws_handleMessage clk' (SessionCreated sid t) v =
        v\<lparr>chat := chatReducer clk'
              (chatReducer clk' (chat v)
                 (ADD_SESSION \<lparr>session_id = sid,
                    title = (if truthy t then the t else default_title),
                    s_created_at = iso_now clk', updated_at = iso_now clk',
                    message_count = None\<rparr>))
              (ADD_USER_MESSAGE None c),
          listeners := (listeners v)(''session_created'' \<mapsto> [ProviderHandler]),
          trace := trace v @
            [Emitted ''session_created'',
             Dispatched (ADD_SESSION \<lparr>session_id = sid,
                    title = (if truthy t then the t else default_title),
                    s_created_at = iso_now clk', updated_at = iso_now clk',
                    message_count = None\<rparr>),
             Dispatched (ADD_USER_MESSAGE None c), Wire (Chat c), Emitted ''message'']\<rparr>"
    using session_created_deferred[of v n c "[]" clk' sid t] by simp
  then show "ws_handleMessage clk' (SessionCreated sid t) v =
        v\<lparr>chat := chatReducer clk'
              (chatReducer clk' (chat v)
                 (ADD_SESSION \<lparr>session_id = sid,
                    title = (if truthy t then the t else default_title),
                    s_created_at = iso_now clk', updated_at = iso_now clk',
                    message_count = None\<rparr>))
              (ADD_USER_MESSAGE None c),
          listeners := (listeners v)(''session_created'' \<mapsto> [ProviderHandler]),
          trace := trace v @
            [Emitted ''session_created'',
             Dispatched (ADD_SESSION \<lparr>session_id = sid,
                    title = (if truthy t then the t else default_title),
                    s_created_at = iso_now clk', updated_at = iso_now clk',
                    message_count = None\<rparr>),
             Dispatched (ADD_USER_MESSAGE None c), Wire (Chat c), Emitted ''message'']\<rparr>" .
  show "messages (chat (ws_handleMessage clk' (SessionCreated sid t) v)) =
        messages (chat v) @
          [\<lparr>msg_id = ''user-'' @ dec (date_now clk'), role = ''user'', content = c,
            created_at = iso_now clk', isStreaming = None, emotion = None\<rparr>]"
    by (simp add: e truthy_def)
  show "activeSessionId (chat (ws_handleMessage clk' (SessionCreated sid t) v)) = Some sid"
    by (simp add: e)
next
  assume "\<not> blank c \<and> is_open w \<and> truthy (activeSessionId (chat w))"
  then show "sendMessage clk c w =
        w\<lparr>chat := chatReducer clk (chat w) (ADD_USER_MESSAGE None c),
          audioRef := None,
          trace := trace w @ [Dispatched (ADD_USER_MESSAGE None c), Wire (Chat c)]\<rparr>"
    using sendMessage_active by simp
qed

theorem deferred_send_witness:
  "\<not> blank ''hi'' \<and> is_open ex_world_connected \<and>
   \<not> truthy (activeSessionId (chat ex_world_connected)) \<and>
   listeners ex_world_connected ''session_created'' = Some [ProviderHandler] \<and>
   trace (sendMessage ex_clock ''hi'' ex_world_connected) =
     trace ex_world_connected @ [Wire NewSession] \<and>
   messages (chat (sendMessage ex_clock ''hi'' ex_world_connected)) = [] \<and>
   listeners (sendMessage ex_clock ''hi'' ex_world_connected) ''session_created'' =
     Some [ProviderHandler, DeferredSend 0 ''hi''] \<and>
   map content (messages (chat (ws_handleMessage ex_clock (SessionCreated ''s1'' None)
      (sendMessage ex_clock ''hi'' ex_world_connected)))) = [''hi''] \<and>
   drop 7 (trace (ws_handleMessage ex_clock (SessionCreated ''s1'' None)
      (sendMessage ex_clock ''hi'' ex_world_connected))) =
     [Emitted ''session_created'',
      Dispatched (ADD_SESSION \<lparr>session_id = ''s1'', title = default_title,
         s_created_at = iso_now ex_clock, updated_at = iso_now ex_clock,
         message_count = None\<rparr>),
      Dispatched (ADD_USER_MESSAGE None ''hi''), Wire (Chat ''hi''), Emitted ''message''] \<and>
   listeners (ws_handleMessage ex_clock (SessionCreated ''s1'' None)
      (sendMessage ex_clock ''hi'' ex_world_connected)) ''session_created'' =
     Some [ProviderHandler] \<and>
   truthy (activeSessionId (chat (ex_world_connected\<lparr>chat :=
      (chat ex_world_connected)\<lparr>activeSessionId := Some ''s1''\<rparr>\<rparr>))) \<and>
   trace (sendMessage ex_clock ''hi'' (ex_world_connected\<lparr>chat :=
      (chat ex_world_connected)\<lparr>activeSessionId := Some ''s1''\<rparr>\<rparr>)) =
     trace ex_world_connected @ [Dispatched (ADD_USER_MESSAGE None ''hi''), Wire (Chat ''hi'')] \<and>
   map content (messages (chat (sendMessage ex_clock ''hi'' (ex_world_connected\<lparr>chat :=
      (chat ex_world_connected)\<lparr>activeSessionId := Some ''s1''\<rparr>\<rparr>)))) = [''hi'']"
proof -
  let ?v = "sendMessage ex_clock ''hi'' ex_world_connected"
  let ?a = "ex_world_connected\<lparr>chat := (chat ex_world_connected)\<lparr>activeSessionId := Some ''s1''\<rparr>\<rparr>"
  note f = ex_world_connected_facts
  have p1: "?v = ex_world_connected\<lparr>listeners := (listeners ex_world_connected)
          (''session_created'' \<mapsto> [ProviderHandler, DeferredSend 0 ''hi'']),
        trace := trace ex_world_connected @ [Wire NewSession],
        next_closure := Suc 0\<rparr>"
    using deferred_send[where c = "''hi''" and w = ex_world_connected and clk = ex_clock]
    by (simp add: blank_samples f)
  have v: "is_open ?v" "listeners ?v ''session_created'' = Some [ProviderHandler, DeferredSend 0 ''hi'']"
    "subscribers ''message'' ?v = []"
    using f by (simp_all add: p1 subscribers_def)
  have p2: "map content (messages (chat (ws_handleMessage ex_clock (SessionCreated ''s1'' None) ?v))) = [''hi''] \<and>
     trace (ws_handleMessage ex_clock (SessionCreated ''s1'' None) ?v) = trace ?v @
     [Emitted ''session_created'',
      Dispatched (ADD_SESSION \<lparr>session_id = ''s1'', title = default_title,
         s_created_at = iso_now ex_clock, updated_at = iso_now ex_clock,
         message_count = None\<rparr>),
      Dispatched (ADD_USER_MESSAGE None ''hi''), Wire (Chat ''hi''), Emitted ''message''] \<and>
     listeners (ws_handleMessage ex_clock (SessionCreated ''s1'' None) ?v) ''session_created'' =
       Some [ProviderHandler]"
    using deferred_send[where v = ?v and n = 0 and c = "''hi''" and clk' = ex_clock
        and sid = "''s1''" and t = None] v
    by (simp add: truthy_def p1 f)
  have a: "is_open ?a" "truthy (activeSessionId (chat ?a))"
    using f by (simp_all add: truthy_def)
  have p3: "sendMessage ex_clock ''hi'' ?a =
      ?a\<lparr>chat := chatReducer ex_clock (chat ?a) (ADD_USER_MESSAGE None ''hi''),
          audioRef := None,
          trace := trace ?a @ [Dispatched (ADD_USER_MESSAGE None ''hi''), Wire (Chat ''hi'')]\<rparr>"
    using deferred_send[where c = "''hi''" and w = ?a and clk = ex_clock] a
    by (simp add: blank_samples)
  have tl: "length (trace ?v) = 7" unfolding p1 by (simp add: ex_world_connected_eq)
  have an: "activeSessionId (chat ex_world_connected) = None"
    by (simp add: ex_world_connected_eq)
  show ?thesis
    using p2 tl by (simp add: blank_samples f a p1 p3 truthy_def an)
qed

text \<open>
  Claim C3 as stated fails when another deferred send is waiting: after
  \<^verbatim>\<open>sendMessage('a')\<close> and \<^verbatim>\<open>sendMessage('b')\<close> with no session active, the next
  \<^verbatim>\<open>session_created\<close> appends only the message \<^verbatim>\<open>a\<close> and sends only \<^verbatim>\<open>chat a\<close>; the deferred
  send for \<^verbatim>\<open>b\<close> does not run and stays subscribed.
\<close>

theorem second_deferred_send_counterexample:
  "\<not> blank ''b'' \<and>
   \<not> truthy (activeSessionId (chat (sendMessage ex_clock ''a'' ex_world_connected))) \<and>
   map content (messages (chat (ws_handleMessage ex_clock (SessionCreated ''s1'' None)
      (sendMessage ex_clock ''b'' (sendMessage ex_clock ''a'' ex_world_connected))))) = [''a''] \<and>
   filter (\<lambda>e. e = Wire (Chat ''a'') \<or> e = Wire (Chat ''b''))
     (trace (ws_handleMessage ex_clock (SessionCreated ''s1'' None)
      (sendMessage ex_clock ''b'' (sendMessage ex_clock ''a'' ex_world_connected)))) =
     [Wire (Chat ''a'')] \<and>
   listeners (ws_handleMessage ex_clock (SessionCreated ''s1'' None)
      (sendMessage ex_clock ''b'' (sendMessage ex_clock ''a'' ex_world_connected)))
      ''session_created'' = Some [ProviderHandler, DeferredSend 1 ''b'']"
proof -
  note f = ex_world_connected_facts
  let ?v1 = "sendMessage ex_clock ''a'' ex_world_connected"
  have v1: "?v1 = ex_world_connected\<lparr>listeners := (listeners ex_world_connected)
          (''session_created'' \<mapsto> [ProviderHandler, DeferredSend 0 ''a'']),
        trace := trace ex_world_connected @ [Wire NewSession],
        next_closure := Suc 0\<rparr>"
    using sendMessage_deferred[of "''a''" ex_world_connected "[ProviderHandler]" ex_clock]
    by (simp add: blank_samples f)
  let ?v2 = "sendMessage ex_clock ''b'' ?v1"
  have v2: "?v2 = ex_world_connected\<lparr>listeners := (listeners ex_world_connected)
          (''session_created'' \<mapsto> [ProviderHandler, DeferredSend 0 ''a'', DeferredSend 1 ''b'']),
        trace := trace ex_world_connected @ [Wire NewSession, Wire NewSession],
        next_closure := Suc (Suc 0)\<rparr>"
    using sendMessage_deferred[of "''b''" ?v1 "[ProviderHandler, DeferredSend 0 ''a'']" ex_clock]
    by (simp add: blank_samples f v1)
  have h: "is_open ?v2"
    "listeners ?v2 ''session_created'' = Some (ProviderHandler # DeferredSend 0 ''a'' # [DeferredSend 1 ''b''])"
    "subscribers ''message'' ?v2 = []"
    using f by (simp_all add: v2 subscribers_def)
  have r: "ws_handleMessage ex_clock (SessionCreated ''s1'' None) ?v2 =
     ?v2\<lparr>chat := chatReducer ex_clock
           (chatReducer ex_clock (chat ?v2)
              (ADD_SESSION \<lparr>session_id = ''s1'', title = default_title,
                 s_created_at = iso_now ex_clock, updated_at = iso_now ex_clock,
                 message_count = None\<rparr>))
           (ADD_USER_MESSAGE None ''a''),
       listeners := (listeners ?v2)(''session_created'' \<mapsto> [ProviderHandler, DeferredSend 1 ''b'']),
       trace := trace ?v2 @
         [Emitted ''session_created'',
          Dispatched (ADD_SESSION \<lparr>session_id = ''s1'', title = default_title,
                 s_created_at = iso_now ex_clock, updated_at = iso_now ex_clock,
                 message_count = None\<rparr>),
          Dispatched (ADD_USER_MESSAGE None ''a''), Wire (Chat ''a''), Emitted ''message'']\<rparr>"
    using session_created_deferred[OF h(1,2) _ h(3), of ex_clock "''s1''" None]
    by (simp add: truthy_def)
  show ?thesis
    apply (simp only: r)
    apply (simp only: v2)
    apply (simp only: v1)
    apply (simp add: blank_samples ex_world_connected_eq truthy_def)
    done
qed

section \<open>Unsubscribing while an event is dispatched\<close>

lemma forEach_quiet:
  assumes "\<forall>i. k \<le> i \<and> i < k + r \<and> i < length arr \<longrightarrow> offs (arr ! i) = []"
  shows "forEach (script_call offs) fst r k (arr, log) = (arr, log @ take r (drop k arr))"
  using assms
proof (induction r arbitrary: k log)
  case 0
  then show ?case by simp
next
  case (Suc r)
  show ?case
  proof (cases "k < length arr")
    case True
    have q: "offs (arr ! k) = []" using Suc.prems True by simp
    have step: "script_call offs (arr ! k) (arr, log) = (arr, log @ [arr ! k])"
      by (simp add: script_call_def q)
    have "forEach (script_call offs) fst r (Suc k) (arr, log @ [arr ! k]) =
          (arr, (log @ [arr ! k]) @ take r (drop (Suc k) arr))"
      by (rule Suc.IH) (use Suc.prems in auto)
    moreover have "take (Suc r) (drop k arr) = arr ! k # take r (drop (Suc k) arr)"
      using True by (simp add: Cons_nth_drop_Suc[symmetric])
    ultimately show ?thesis using True by (simp add: step)
  next
    case False
    have "forEach (script_call offs) fst r (Suc k) (arr, log) =
          (arr, log @ take r (drop (Suc k) arr))"
      by (rule Suc.IH) (use Suc.prems in auto)
    then show ?thesis using False by simp
  qed
qed

lemma forEach_split:
  "forEach call arr (a + b) k w = forEach call arr b (k + a) (forEach call arr a k w)"
  by (induction a arbitrary: k w) simp_all

lemma remove1_nth:
  assumes "distinct cs" and "j < length cs"
  shows "remove1 (cs ! j) cs = take j cs @ drop (Suc j) cs"
proof -
  have cs: "cs = take j cs @ cs ! j # drop (Suc j) cs"
    using assms(2) by (simp add: id_take_nth_drop[symmetric])
  have "cs ! j \<notin> set (take j cs)"
    using assms cs by (metis distinct_append distinct.simps(2) disjoint_iff list.set_intros(1))
  then have "remove1 (cs ! j) (take j cs @ cs ! j # drop (Suc j) cs) = take j cs @ drop (Suc j) cs"
    by (simp add: remove1_append)
  then show ?thesis using cs by simp
qed

lemma dispatch_skips:
  assumes d: "distinct cs" and k: "k < length cs" and j: "j \<le> k"
    and off: "offs (cs ! k) = [cs ! j]"
    and quiet: "\<forall>h \<in> set cs. h \<noteq> cs ! k \<longrightarrow> offs h = []"
  shows "dispatch_log offs cs = take (Suc k) cs @ drop (k + 2) cs"
proof -
  let ?n = "length cs"
  let ?arr' = "take j cs @ drop (Suc j) cs"
  have n: "k + Suc (?n - Suc k) = ?n" using k by simp
  have q0: "\<forall>i. 0 \<le> i \<and> i < 0 + k \<and> i < length cs \<longrightarrow> offs (cs ! i) = []"
    using quiet d k by (auto simp add: nth_eq_iff_index_eq)
  have first: "forEach (script_call offs) fst k 0 (cs, []) = (cs, take k cs)"
    using forEach_quiet[OF q0, of "[]"] by simp
  have step: "script_call offs (cs ! k) (cs, take k cs) = (?arr', take (Suc k) cs)"
    using k j off remove1_nth[OF d, of j]
    by (simp add: script_call_def take_Suc_conv_app_nth)
  have nth': "\<And>i. Suc k \<le> i \<Longrightarrow> i < length ?arr' \<Longrightarrow> ?arr' ! i = cs ! Suc i"
    using j k by (simp add: nth_append min_def)
  have q1: "\<forall>i. Suc k \<le> i \<and> i < Suc k + (?n - Suc k) \<and> i < length ?arr' \<longrightarrow>
              offs (?arr' ! i) = []"
  proof (intro allI impI)
    fix i assume i: "Suc k \<le> i \<and> i < Suc k + (?n - Suc k) \<and> i < length ?arr'"
    then have s: "Suc i < ?n" using j k by auto
    have "cs ! Suc i \<noteq> cs ! k" using d s k i by (simp add: nth_eq_iff_index_eq)
    then have "offs (cs ! Suc i) = []" using quiet s by simp
    then show "offs (?arr' ! i) = []" using nth' i by simp
  qed
  have dr: "drop (Suc k) ?arr' = drop (k + 2) cs" using j k by simp
  have rest: "forEach (script_call offs) fst (?n - Suc k) (Suc k) (?arr', take (Suc k) cs) =
              (?arr', take (Suc k) cs @ drop (k + 2) cs)"
    unfolding forEach_quiet[OF q1, of "take (Suc k) cs"] dr by simp
  have "forEach (script_call offs) fst (k + Suc (?n - Suc k)) 0 (cs, []) =
        forEach (script_call offs) fst (Suc (?n - Suc k)) (0 + k) (cs, take k cs)"
    unfolding forEach_split first ..
  also have "\<dots> = forEach (script_call offs) fst (?n - Suc k) (Suc k) (?arr', take (Suc k) cs)"
    using k by (simp add: step)
  finally have "forEach (script_call offs) fst ?n 0 (cs, []) =
      (?arr', take (Suc k) cs @ drop (k + 2) cs)"
    unfolding n rest .
  then show ?thesis by (simp add: dispatch_log_def)
qed

text \<open>
  Claim C10, as amended. \<^verbatim>\<open>emit\<close> iterates the live array and \<^verbatim>\<open>off\<close> splices it in place:
  when the handler running at index \<open>k\<close> unsubscribes itself or a handler registered
  before it, and no other handler changes the array, every handler up to index \<open>k\<close> runs,
  the handler registered right after the running one (index \<open>k + 1\<close>) is skipped, and the
  later ones run. For a handler that unsubscribes itself this is the handler following
  the removed one. So when \<^verbatim>\<open>session_created\<close> is dispatched to the provider's handler, a
  deferred send and one more subscriber \<open>d\<close>, the deferred send runs and detaches itself
  and \<open>d\<close> misses that occurrence of the event, staying subscribed.
\<close>

theorem unsubscribe_during_dispatch:
  "(distinct cs \<and> k < length cs \<and> j \<le> k \<and> offs (cs ! k) = [cs ! j] \<and>
    (\<forall>h \<in> set cs. h \<noteq> cs ! k \<longrightarrow> offs h = []) \<longrightarrow>
      dispatch_log offs cs = take (Suc k) cs @ drop (k + 2) cs) \<and>
   (is_open v \<and> listeners v ''session_created'' = Some [ProviderHandler, DeferredSend n a, d] \<and>
    subscribers ''message'' v = [] \<longrightarrow>
      ws_handleMessage clk (SessionCreated sid t) v =
        v\<lparr>chat := chatReducer clk
              (chatReducer clk (chat v)
                 (ADD_SESSION \<lparr>session_id = sid,
                    title = (if truthy t then the t else default_title),
                    s_created_at = iso_now clk, updated_at = iso_now clk,
                    message_count = None\<rparr>))
              (ADD_USER_MESSAGE None a),
          listeners := (listeners v)(''session_created'' \<mapsto> [ProviderHandler, d]),
          trace := trace v @
            [Emitted ''session_created'',
             Dispatched (ADD_SESSION \<lparr>session_id = sid,
                    title = (if truthy t then the t else default_title),
                    s_created_at = iso_now clk, updated_at = iso_now clk,
                    message_count = None\<rparr>),
             Dispatched (ADD_USER_MESSAGE None a), Wire (Chat a), Emitted ''message'']\<rparr>)"
proof (intro conjI impI)
  assume "distinct cs \<and> k < length cs \<and> j \<le> k \<and> offs (cs ! k) = [cs ! j] \<and>
    (\<forall>h \<in> set cs. h \<noteq> cs ! k \<longrightarrow> offs h = [])"
  then show "dispatch_log offs cs = take (Suc k) cs @ drop (k + 2) cs"
    using dispatch_skips[of cs k j offs] by blast
next
  assume "is_open v \<and> listeners v ''session_created'' = Some [ProviderHandler, DeferredSend n a, d] \<and>
    subscribers ''message'' v = []"
  then show "ws_handleMessage clk (SessionCreated sid t) v =
        v\<lparr>chat := chatReducer clk
              (chatReducer clk (chat v)
                 (ADD_SESSION \<lparr>session_id = sid,
                    title = (if truthy t then the t else default_title),
                    s_created_at = iso_now clk, updated_at = iso_now clk,
                    message_count = None\<rparr>))
              (ADD_USER_MESSAGE None a),
          listeners := (listeners v)(''session_created'' \<mapsto> [ProviderHandler, d]),
          trace := trace v @
            [Emitted ''session_created'',
             Dispatched (ADD_SESSION \<lparr>session_id = sid,
                    title = (if truthy t then the t else default_title),
                    s_created_at = iso_now clk, updated_at = iso_now clk,
                    message_count = None\<rparr>),
             Dispatched (ADD_USER_MESSAGE None a), Wire (Chat a), Emitted ''message'']\<rparr>"
    using session_created_deferred[of v n a "[d]" clk sid t] by simp
qed

theorem unsubscribe_during_dispatch_witness:
  "dispatch_log (\<lambda>h. if h = Suc 0 then [Suc 0] else []) [0, Suc 0, 2, 3] = [0, Suc 0, 3] \<and>
   dispatch_log (\<lambda>h. if h = 2 then [0] else []) [0, Suc 0, 2, 3, 4] = [0, Suc 0, 2, 4] \<and>
   is_open (sendMessage ex_clock ''b'' (sendMessage ex_clock ''a'' ex_world_connected)) \<and>
   listeners (sendMessage ex_clock ''b'' (sendMessage ex_clock ''a'' ex_world_connected))
      ''session_created'' = Some [ProviderHandler, DeferredSend 0 ''a'', DeferredSend 1 ''b''] \<and>
   listeners (ws_handleMessage ex_clock (SessionCreated ''s1'' None)
      (sendMessage ex_clock ''b'' (sendMessage ex_clock ''a'' ex_world_connected)))
      ''session_created'' = Some [ProviderHandler, DeferredSend 1 ''b''] \<and>
   drop 8 (trace (ws_handleMessage ex_clock (SessionCreated ''s1'' None)
      (sendMessage ex_clock ''b'' (sendMessage ex_clock ''a'' ex_world_connected)))) =
     [Emitted ''session_created'',
      Dispatched (ADD_SESSION \<lparr>session_id = ''s1'', title = default_title,
         s_created_at = iso_now ex_clock, updated_at = iso_now ex_clock,
         message_count = None\<rparr>),
      Dispatched (ADD_USER_MESSAGE None ''a''), Wire (Chat ''a''), Emitted ''message'']"
proof -
  note f = ex_world_connected_facts
  let ?v1 = "sendMessage ex_clock ''a'' ex_world_connected"
  have v1: "?v1 = ex_world_connected\<lparr>listeners := (listeners ex_world_connected)
          (''session_created'' \<mapsto> [ProviderHandler, DeferredSend 0 ''a'']),
        trace := trace ex_world_connected @ [Wire NewSession],
        next_closure := Suc 0\<rparr>"
    using sendMessage_deferred[of "''a''" ex_world_connected "[ProviderHandler]" ex_clock]
    by (simp add: blank_samples f)
  let ?v2 = "sendMessage ex_clock ''b'' ?v1"
  have v2: "?v2 = ex_world_connected\<lparr>listeners := (listeners ex_world_connected)
          (''session_created'' \<mapsto> [ProviderHandler, DeferredSend 0 ''a'', DeferredSend 1 ''b'']),
        trace := trace ex_world_connected @ [Wire NewSession, Wire NewSession],
        next_closure := Suc (Suc 0)\<rparr>"
    using sendMessage_deferred[of "''b''" ?v1 "[ProviderHandler, DeferredSend 0 ''a'']" ex_clock]
    by (simp add: blank_samples f v1)
  have h: "is_open ?v2"
    "listeners ?v2 ''session_created'' = Some [ProviderHandler, DeferredSend 0 ''a'', DeferredSend 1 ''b'']"
    "subscribers ''message'' ?v2 = []"
    using f by (simp_all add: v2 subscribers_def)
  have tl: "length (trace ?v2) = 8" unfolding v2 by (simp add: ex_world_connected_eq)
  have r: "listeners (ws_handleMessage ex_clock (SessionCreated ''s1'' None) ?v2)
      ''session_created'' = Some [ProviderHandler, DeferredSend 1 ''b''] \<and>
     trace (ws_handleMessage ex_clock (SessionCreated ''s1'' None) ?v2) = trace ?v2 @
     [Emitted ''session_created'',
      Dispatched (ADD_SESSION \<lparr>session_id = ''s1'', title = default_title,
         s_created_at = iso_now ex_clock, updated_at = iso_now ex_clock,
         message_count = None\<rparr>),
      Dispatched (ADD_USER_MESSAGE None ''a''), Wire (Chat ''a''), Emitted ''message'']"
    using unsubscribe_during_dispatch[where cs = "[] :: nat list" and k = 0 and j = 0
        and offs = "\<lambda>_. []" and v = ?v2 and n = 0 and a = "''a''"
        and d = "DeferredSend 1 ''b''" and clk = ex_clock and sid = "''s1''" and t = None,
        THEN conjunct2] h
    by (simp add: truthy_def)
  have l1: "dispatch_log (\<lambda>h. if h = Suc 0 then [Suc 0] else []) [0, Suc 0, 2, 3] = [0, Suc 0, 3]"
    using unsubscribe_during_dispatch[where cs = "[0, Suc 0, 2, 3]" and k = "Suc 0" and j = "Suc 0"
        and offs = "\<lambda>h. if h = Suc 0 then [Suc 0] else []", THEN conjunct1]
    by simp
  have l2: "dispatch_log (\<lambda>h. if h = 2 then [0] else []) [0, Suc 0, 2, 3, 4] = [0, Suc 0, 2, 4]"
    using unsubscribe_during_dispatch[where cs = "[0, Suc 0, 2, 3, 4]" and k = 2 and j = 0
        and offs = "\<lambda>h. if h = 2 then [0] else []", THEN conjunct1]
    by (simp add: numeral_2_eq_2)
  show ?thesis using r tl h l1 l2 by simp
qed

text \<open>
  Claim C10 as stated fails when the handler removed is an earlier one: with handlers
  0 to 4 and handler 2 unsubscribing handler 0, the handler that follows the removed one
  (handler 1) has run, and the one skipped is handler 3, which follows the running
  handler.
\<close>

theorem earlier_unsubscribe_counterexample:
  "dispatch_log (\<lambda>h. if h = 2 then [0] else []) [0, Suc 0, 2, 3, 4] = [0, Suc 0, 2, 4] \<and>
   Suc 0 \<in> set (dispatch_log (\<lambda>h. if h = 2 then [0] else []) [0, Suc 0, 2, 3, 4]) \<and>
   3 \<notin> set (dispatch_log (\<lambda>h. if h = 2 then [0] else []) [0, Suc 0, 2, 3, 4])"
  by (simp add: dispatch_log_def script_call_def)

section \<open>The transcript when the active session changes\<close>

lemma chat_send [simp]: "chat (snd (ws_send f w)) = chat w"
  by (simp add: ws_send_def)

lemma chat_ws_connect [simp]: "chat (ws_connect clk p uid w) = chat w"
  by (cases p)
     (simp_all add: ws_connect_def settle_def close_socket_def Let_def ws_listSessions_def)

lemma session_change_events:
  assumes "activeSessionId (on_event clk ev st) \<noteq> activeSessionId st"
    and "\<forall>sid t. ev \<noteq> SessionCreated sid t"
  shows "messages (on_event clk ev st) = [] \<or>
         (\<exists>sid ms. ev = SessionLoaded sid ms \<and>
            messages (on_event clk ev st) = (case ms of None \<Rightarrow> [] | Some l \<Rightarrow> l))"
  using assms by (cases ev) (auto simp add: on_event_def Let_def split: if_splits)

lemma chat_dispatch_all:
  "chat (foldl (\<lambda>v a. dispatch clk a v) w acts) = foldl (chatReducer clk) (chat w) acts"
  by (induction acts arbitrary: w) (simp_all add: dispatch_def)

lemma listeners_dispatch_all:
  "listeners (foldl (\<lambda>v a. dispatch clk a v) w acts) = listeners w"
  by (induction acts arbitrary: w) (simp_all add: dispatch_def)

lemma chat_provider_handler: "chat (provider_handler clk ev w) = on_event clk ev (chat w)"
  by (cases ev) (simp_all add: provider_handler_def Let_def dispatch_def on_event_def)

lemma listeners_provider_handler: "listeners (provider_handler clk ev w) = listeners w"
  by (cases ev) (simp_all add: provider_handler_def Let_def dispatch_def)

lemma provider_alone:
  assumes "listeners v (event_type ev) = Some [ProviderHandler]"
    and "subscribers ''message'' v = []"
  shows "chat (ws_handleMessage clk ev v) = on_event clk ev (chat v)"
proof -
  let ?v1 = "ws_emit clk (event_type ev) ev v"
  have e1: "?v1 = provider_handler clk ev (v\<lparr>trace := trace v @ [Emitted (event_type ev)]\<rparr>)"
    using assms(1) by (simp add: ws_emit_def Let_def subscribers_def)
  have c1: "chat ?v1 = on_event clk ev (chat v)"
    by (simp add: e1 chat_provider_handler)
  have l1: "listeners ?v1 = listeners v"
    by (simp add: e1 listeners_provider_handler)
  have "chat (ws_emit clk ''message'' ev ?v1) = chat ?v1"
    using assms(2) l1 by (simp add: ws_emit_def Let_def subscribers_def split: option.splits)
  then show ?thesis by (simp add: ws_handleMessage_def c1)
qed

lemma forEach_extends:
  assumes "\<And>h w. \<exists>es. g (call h w) = g w @ es"
  shows "\<exists>es. g (forEach call arr r k w) = g w @ es"
proof (induction r arbitrary: k w)
  case 0
  then show ?case by simp
next
  case (Suc r)
  let ?w' = "if k < length (arr w) then call (arr w ! k) w else w"
  obtain es where es: "g ?w' = g w @ es" using assms by (cases "k < length (arr w)") auto
  obtain es' where "g (forEach call arr r (Suc k) ?w') = g ?w' @ es'" using Suc by blast
  then show ?case using es by simp
qed

lemma created_keeps_handler:
  "\<exists>ms. messages (chat (run_handler clk (SessionCreated sid t) h w)) = messages (chat w) @ ms"
  by (cases h)
     (simp_all add: provider_handler_def dispatch_def ws_off_def ws_chat_def Let_def
        split: option.splits)

lemma created_keeps_emit:
  "\<exists>ms. messages (chat (ws_emit clk name (SessionCreated sid t) w)) = messages (chat w) @ ms"
proof (cases "listeners w name")
  case None
  then show ?thesis by (simp add: ws_emit_def)
next
  case (Some cs)
  let ?w' = "w\<lparr>trace := trace w @ [Emitted name]\<rparr>"
  obtain ms where "messages (chat (forEach (run_handler clk (SessionCreated sid t))
      (subscribers name) (length cs) 0 ?w')) = messages (chat ?w') @ ms"
    using forEach_extends[of "\<lambda>w. messages (chat w)" "run_handler clk (SessionCreated sid t)",
        OF created_keeps_handler] by blast
  then show ?thesis using Some by (simp add: ws_emit_def)
qed

lemma created_keeps:
  "\<exists>ms. messages (chat (ws_handleMessage clk (SessionCreated sid t) v)) = messages (chat v) @ ms"
proof -
  obtain ms where a: "messages (chat (ws_emit clk ''session_created'' (SessionCreated sid t) v)) =
      messages (chat v) @ ms"
    using created_keeps_emit by blast
  obtain ms' where "messages (chat (ws_emit clk ''message'' (SessionCreated sid t)
        (ws_emit clk ''session_created'' (SessionCreated sid t) v))) =
      messages (chat (ws_emit clk ''session_created'' (SessionCreated sid t) v)) @ ms'"
    using created_keeps_emit by blast
  then show ?thesis using a by (simp add: ws_handleMessage_def)
qed

lemma created_with_deferred:
  assumes "listeners v ''session_created'' = Some [ProviderHandler, DeferredSend n c]"
    and "subscribers ''message'' v = []"
  shows "chat (ws_handleMessage clk (SessionCreated sid t) v) =
           chatReducer clk (on_event clk (SessionCreated sid t) (chat v)) (ADD_USER_MESSAGE None c)"
  using assms
  by (simp add: ws_handleMessage_def ws_emit_def Let_def subscribers_def provider_handler_def
      dispatch_def ws_chat_def ws_send_def ws_off_def on_event_def split: option.splits)

lemma createSession_steps:
  "chat (createSession clk w) = (chat w)\<lparr>messages := []\<rparr>"
  "trace (createSession clk w) =
     trace w @ Dispatched CLEAR_MESSAGES # (if is_open w then [Wire NewSession] else [])"
  by (simp_all add: createSession_def ws_newSession_def ws_send_def dispatch_def)

text \<open>
  Claim C7, as amended. For the transition the provider's handler makes on an inbound
  event, which is the state after the frame is handled whenever that handler is the only
  subscriber of the frame's type and nothing is subscribed to \<^verbatim>\<open>message\<close>: every event
  other than \<^verbatim>\<open>session_created\<close> that changes the active session id leaves the transcript
  empty or replaced by the messages the event carries. The \<^verbatim>\<open>session_created\<close> event never
  clears the transcript: the provider's handler puts the new session at the head of the
  roster, makes it active and changes nothing else; whatever is subscribed, the old
  transcript is a prefix of the transcript after the frame is handled; and with one
  deferred send of \<^verbatim>\<open>sendMessage\<close> waiting behind the provider's handler the transcript is
  the old one followed by the user message of that send, with the new session active.
  \<^verbatim>\<open>createSession\<close> dispatches \<^verbatim>\<open>CLEAR_MESSAGES\<close>, which only empties the transcript, and
  after it sends \<^verbatim>\<open>new_session\<close> if the transport is open. \<^verbatim>\<open>switchUser\<close> empties the transcript
  and clears the active session, and \<^verbatim>\<open>switchSession\<close> to a session other than the active
  one empties the transcript.
\<close>

theorem session_change_transcript:
  "(activeSessionId (on_event clk ev st) \<noteq> activeSessionId st \<and>
    (\<forall>sid t. ev \<noteq> SessionCreated sid t) \<longrightarrow>
      messages (on_event clk ev st) = [] \<or>
      (\<exists>sid ms. ev = SessionLoaded sid ms \<and>
         messages (on_event clk ev st) = (case ms of None \<Rightarrow> [] | Some l \<Rightarrow> l))) \<and>
   (listeners v (event_type ev) = Some [ProviderHandler] \<and> subscribers ''message'' v = [] \<longrightarrow>
      chat (ws_handleMessage clk ev v) = on_event clk ev (chat v)) \<and>
   on_event clk (SessionCreated sid t) st =
     st\<lparr>sessions :=
          \<lparr>session_id = sid, title = (if truthy t then the t else default_title),
           s_created_at = iso_now clk, updated_at = iso_now clk, message_count = None\<rparr> #
          sessions st,
        activeSessionId := Some sid\<rparr> \<and>
   (\<exists>ms. messages (chat (ws_handleMessage clk (SessionCreated sid t) v)) =
      messages (chat v) @ ms) \<and>
   (listeners v ''session_created'' = Some [ProviderHandler, DeferredSend n c] \<and>
    subscribers ''message'' v = [] \<longrightarrow>
      messages (chat (ws_handleMessage clk (SessionCreated sid t) v)) =
        messages (chat v) @
          [\<lparr>msg_id = ''user-'' @ dec (date_now clk), role = ''user'', content = c,
            created_at = iso_now clk, isStreaming = None, emotion = None\<rparr>] \<and>
      activeSessionId (chat (ws_handleMessage clk (SessionCreated sid t) v)) = Some sid) \<and>
   chat (createSession clk w) = (chat w)\<lparr>messages := []\<rparr> \<and>
   trace (createSession clk w) =
     trace w @ Dispatched CLEAR_MESSAGES # (if is_open w then [Wire NewSession] else []) \<and>
   messages (chat (switchUser clk u w)) = [] \<and>
   activeSessionId (chat (switchUser clk u w)) = None \<and>
   (Some sid \<noteq> activeSessionId (chat w) \<longrightarrow> messages (chat (switchSession clk sid w)) = [])"
proof (intro conjI impI)
  assume "activeSessionId (on_event clk ev st) \<noteq> activeSessionId st \<and>
    (\<forall>sid t. ev \<noteq> SessionCreated sid t)"
  then show "messages (on_event clk ev st) = [] \<or>
      (\<exists>sid ms. ev = SessionLoaded sid ms \<and>
         messages (on_event clk ev st) = (case ms of None \<Rightarrow> [] | Some l \<Rightarrow> l))"
    using session_change_events by blast
next
  assume "listeners v (event_type ev) = Some [ProviderHandler] \<and> subscribers ''message'' v = []"
  then show "chat (ws_handleMessage clk ev v) = on_event clk ev (chat v)"
    using provider_alone by blast
next
  show "on_event clk (SessionCreated sid t) st =
     st\<lparr>sessions :=
          \<lparr>session_id = sid, title = (if truthy t then the t else default_title),
           s_created_at = iso_now clk, updated_at = iso_now clk, message_count = None\<rparr> #
          sessions st,
        activeSessionId := Some sid\<rparr>"
    by (simp add: on_event_def)
  show "\<exists>ms. messages (chat (ws_handleMessage clk (SessionCreated sid t) v)) =
      messages (chat v) @ ms"
    by (rule created_keeps)
  show "chat (createSession clk w) = (chat w)\<lparr>messages := []\<rparr>"
    by (rule createSession_steps(1))
  show "trace (createSession clk w) =
     trace w @ Dispatched CLEAR_MESSAGES # (if is_open w then [Wire NewSession] else [])"
    by (rule createSession_steps(2))
  show "messages (chat (switchUser clk u w)) = []"
    by (simp add: switchUser_def connect_def dispatch_def Let_def)
  show "activeSessionId (chat (switchUser clk u w)) = None"
    by (simp add: switchUser_def connect_def dispatch_def Let_def)
next
  assume a: "listeners v ''session_created'' = Some [ProviderHandler, DeferredSend n c] \<and>
    subscribers ''message'' v = []"
  show "messages (chat (ws_handleMessage clk (SessionCreated sid t) v)) =
        messages (chat v) @
          [\<lparr>msg_id = ''user-'' @ dec (date_now clk), role = ''user'', content = c,
            created_at = iso_now clk, isStreaming = None, emotion = None\<rparr>]"
    using a created_with_deferred[of v n c clk sid t] by (simp add: on_event_def truthy_def)
  show "activeSessionId (chat (ws_handleMessage clk (SessionCreated sid t) v)) = Some sid"
    using a created_with_deferred[of v n c clk sid t] by (simp add: on_event_def)
next
  assume "Some sid \<noteq> activeSessionId (chat w)"
  then show "messages (chat (switchSession clk sid w)) = []"
    by (simp add: switchSession_def ws_initSession_def dispatch_def Let_def)
qed

theorem session_change_transcript_witness:
  "activeSessionId (on_event ex_clock (SessionLoaded ''s2'' (Some [ex_streaming]))
      ex_state_two_sessions) \<noteq> activeSessionId ex_state_two_sessions \<and>
   messages (on_event ex_clock (SessionLoaded ''s2'' (Some [ex_streaming]))
      ex_state_two_sessions) = [ex_streaming] \<and>
   activeSessionId (on_event ex_clock (SessionDeleted ''s1'') ex_state_two_sessions) \<noteq>
      activeSessionId ex_state_two_sessions \<and>
   messages (on_event ex_clock (SessionDeleted ''s1'') ex_state_two_sessions) = [] \<and>
   listeners ex_world_connected (event_type (SessionLoaded ''s1'' (Some [ex_streaming]))) =
      Some [ProviderHandler] \<and>
   subscribers ''message'' ex_world_connected = [] \<and>
   messages (chat (ws_handleMessage ex_clock (SessionLoaded ''s1'' (Some [ex_streaming]))
      ex_world_connected)) = [ex_streaming] \<and>
   listeners (sendMessage ex_clock ''hi'' ex_world_connected) ''session_created'' =
      Some [ProviderHandler, DeferredSend 0 ''hi''] \<and>
   subscribers ''message'' (sendMessage ex_clock ''hi'' ex_world_connected) = [] \<and>
   map content (messages (chat (ws_handleMessage ex_clock (SessionCreated ''s1'' None)
      (sendMessage ex_clock ''hi'' ex_world_connected)))) = [''hi''] \<and>
   activeSessionId (chat (ws_handleMessage ex_clock (SessionCreated ''s1'' None)
      (sendMessage ex_clock ''hi'' ex_world_connected))) = Some ''s1'' \<and>
   Some ''s2'' \<noteq> activeSessionId (chat (ex_world_connected\<lparr>chat := ex_state_two_sessions\<rparr>)) \<and>
   messages (chat (switchSession ex_clock ''s2''
      (ex_world_connected\<lparr>chat := ex_state_two_sessions\<rparr>))) = []"
proof -
  note f = ex_world_connected_facts
  have a: "activeSessionId (on_event ex_clock (SessionLoaded ''s2'' (Some [ex_streaming]))
      ex_state_two_sessions) \<noteq> activeSessionId ex_state_two_sessions"
    "activeSessionId (on_event ex_clock (SessionDeleted ''s1'') ex_state_two_sessions) \<noteq>
      activeSessionId ex_state_two_sessions"
    "Some ''s2'' \<noteq> activeSessionId (chat (ex_world_connected\<lparr>chat := ex_state_two_sessions\<rparr>))"
    by (simp_all add: on_event_def ex_state_two_sessions_def)
  have b: "messages (on_event ex_clock (SessionDeleted ''s1'') ex_state_two_sessions) = []"
    using a(2) session_change_transcript[where ev = "SessionDeleted ''s1''" and clk = ex_clock
        and st = ex_state_two_sessions, THEN conjunct1]
    by simp
  have c: "messages (on_event ex_clock (SessionLoaded ''s2'' (Some [ex_streaming]))
      ex_state_two_sessions) = [ex_streaming]"
    by (simp add: on_event_def)
  have l: "listeners ex_world_connected (event_type (SessionLoaded ''s1'' (Some [ex_streaming]))) =
      Some [ProviderHandler]"
    by (simp add: ex_world_connected_eq mounted_listeners provider_events_def)
  have d: "messages (chat (ws_handleMessage ex_clock (SessionLoaded ''s1'' (Some [ex_streaming]))
      ex_world_connected)) = [ex_streaming]"
    using l f(4) session_change_transcript[where ev = "SessionLoaded ''s1'' (Some [ex_streaming])"
        and clk = ex_clock and v = ex_world_connected, THEN conjunct2, THEN conjunct1]
    by (simp add: on_event_def)
  let ?v = "sendMessage ex_clock ''hi'' ex_world_connected"
  have v: "?v = ex_world_connected\<lparr>listeners := (listeners ex_world_connected)
          (''session_created'' \<mapsto> [ProviderHandler, DeferredSend 0 ''hi'']),
        trace := trace ex_world_connected @ [Wire NewSession],
        next_closure := Suc 0\<rparr>"
    using sendMessage_deferred[of "''hi''" ex_world_connected "[ProviderHandler]" ex_clock]
    by (simp add: blank_samples f)
  have h: "listeners ?v ''session_created'' = Some [ProviderHandler, DeferredSend 0 ''hi'']"
    "subscribers ''message'' ?v = []"
    using f by (simp_all add: v subscribers_def)
  have e: "map content (messages (chat (ws_handleMessage ex_clock (SessionCreated ''s1'' None) ?v))) =
      [''hi''] \<and>
     activeSessionId (chat (ws_handleMessage ex_clock (SessionCreated ''s1'' None) ?v)) = Some ''s1''"
    using h session_change_transcript[where v = ?v and n = 0 and c = "''hi''" and clk = ex_clock
        and sid = "''s1''" and t = None]
    by (simp add: v f)
  have g: "messages (chat (switchSession ex_clock ''s2''
      (ex_world_connected\<lparr>chat := ex_state_two_sessions\<rparr>))) = []"
    using a(3) session_change_transcript[where sid = "''s2''" and clk = ex_clock
        and w = "ex_world_connected\<lparr>chat := ex_state_two_sessions\<rparr>"]
    by simp
  show ?thesis using a b c d e g h l f(4) by simp
qed

text \<open>
  Claim C7 as stated fails for \<^verbatim>\<open>session_created\<close>. With session \<^verbatim>\<open>s1\<close> loaded, the user
  asks for a new session, which empties the transcript; a late \<^verbatim>\<open>stream\<close> delta of the
  reply in \<^verbatim>\<open>s1\<close> arrives before the \<^verbatim>\<open>session_created\<close> event for \<^verbatim>\<open>s2\<close>. After that event
  \<^verbatim>\<open>s2\<close> is active and the transcript holds the message of \<^verbatim>\<open>s1\<close>. The same on the reducer
  alone: \<^verbatim>\<open>session_loaded\<close> for \<^verbatim>\<open>s1\<close> followed by \<^verbatim>\<open>session_created\<close> for \<^verbatim>\<open>s2\<close>.
\<close>

theorem session_created_keeps_transcript_counterexample:
  "activeSessionId (chat ex_world_new_chat) = Some ''s1'' \<and>
   messages (chat ex_world_new_chat) = [] \<and>
   activeSessionId (chat (ws_handleMessage ex_clock (SessionCreated ''s2'' None)
     (ws_handleMessage ex_clock (Stream ''late'') ex_world_new_chat))) = Some ''s2'' \<and>
   map content (messages (chat (ws_handleMessage ex_clock (SessionCreated ''s2'' None)
     (ws_handleMessage ex_clock (Stream ''late'') ex_world_new_chat)))) = [''late''] \<and>
   activeSessionId (run_events [(ex_clock, SessionLoaded ''s1'' (Some [ex_streaming]))]
      (initialState None)) = Some ''s1'' \<and>
   activeSessionId (run_events
      [(ex_clock, SessionLoaded ''s1'' (Some [ex_streaming])),
       (ex_clock, SessionCreated ''s2'' None)] (initialState None)) = Some ''s2'' \<and>
   messages (run_events
      [(ex_clock, SessionLoaded ''s1'' (Some [ex_streaming])),
       (ex_clock, SessionCreated ''s2'' None)] (initialState None)) = [ex_streaming]"
  by (simp add: ex_world_new_chat_def ex_world_connected_eq ws_handleMessage_def ws_emit_def
      mounted_listeners provider_events_def subscribers_def provider_handler_def dispatch_def
      createSession_def ws_newSession_def ws_send_def is_open_def Let_def
      streaming_assistant_def truthy_def on_event_def initialState_def)

end
